theory Spec2Isabelle
  imports Main
begin

section \<open>Values, rows and the stored data\<close>

text \<open>
  Python values that travel between the facades and the connector: parameters of a
  statement and the cells of a fetched row.  A float is kept as mantissa and binary
  exponent, a DECIMAL(10, 2) cell as its number of hundredths; no arithmetic is done on
  either by the data-access layer.
\<close>

type_synonym pyfloat = "int \<times> int"

datatype pyval = PNone | PInt int | PStr string | PFloat pyfloat | PDecimal int

text \<open>A row fetched with \<^verbatim>\<open>cursor(dictionary=True)\<close>: column name to value, in column order.\<close>

type_synonym row = "(string \<times> pyval) list"

text \<open>
  The three tables of \<^verbatim>\<open>initialize_database\<close>.  A table keeps its rows in insertion
  order together with its AUTO_INCREMENT counter.
\<close>

record user_row =
  u_id :: int
  u_name :: string
  u_email :: string
  u_password :: string

record post_row =
  p_id :: int
  p_title :: string
  p_content :: string
  p_user_id :: int

record product_row =
  g_id :: int
  g_name :: string
  g_description :: string
  g_price :: int
  g_quantity :: int

record 'r table =
  rows :: "'r list"
  next_id :: int

text \<open>
  The database named by the manager's configuration; a table that was never created is
  \<open>None\<close>.
\<close>

record database =
  users :: "user_row table option"
  posts :: "post_row table option"
  products :: "product_row table option"

section \<open>Exceptions, log records and resource events\<close>

text \<open>
  \<open>mysql_error\<close> stands for \<^verbatim>\<open>mysql.connector.Error\<close> and its subclasses, the only
  exceptions the \<^verbatim>\<open>except Error\<close> clauses catch.  \<open>exn\<close> are the exceptions that reach
  the caller of the data-access layer.
\<close>

datatype mysql_error =
    InterfaceError string
  | OperationalError string
  | ProgrammingError string
  | IntegrityError string
  | DataError string

datatype exn = PermissionError string | UnboundLocalError string

datatype level = INFO | WARNING | ERROR

datatype logarg =
    AStr string
  | AInt int
  | AVal pyval
  | AParams "pyval list option"
  | AData "(string \<times> pyval) list"
  | AErr mysql_error
  | AConn

text \<open>
  One call of \<^verbatim>\<open>logging.info\<close>, \<^verbatim>\<open>logging.warning\<close> or \<^verbatim>\<open>logging.error\<close>: the level, the
  text of the f-string with \<open>{}\<close> for each interpolation, and the interpolated values.
\<close>

type_synonym log_record = "level \<times> string \<times> logarg list"

datatype event = ConnOpened | CursorOpened | CursorClosed | ConnClosed

text \<open>Every connection and every cursor that was opened has been closed.\<close>

definition released :: "event list \<Rightarrow> bool" where
  "released tr =
     (length (filter (\<lambda>ev. ev = ConnOpened) tr) = length (filter (\<lambda>ev. ev = ConnClosed) tr) \<and>
      length (filter (\<lambda>ev. ev = CursorOpened) tr) = length (filter (\<lambda>ev. ev = CursorClosed) tr))"

text \<open>
  The world a call runs in: the committed state of the configured database on the server
  (\<open>None\<close> when the database does not exist), the logging calls made so far, and the
  connections and cursors opened and closed so far.
\<close>

record world =
  server :: "database option"
  log_records :: "log_record list"
  trace :: "event list"

text \<open>
  What the connector and the network do during one call of a primitive.  Each field is
  the outcome of one library call the source makes: \<open>Some err\<close> when that call raises
  \<^verbatim>\<open>Error\<close> for a reason outside the statement itself (server unreachable, access
  denied, connection lost, or an error of the connector's own such as a commit with an
  unread result set), and the answer of \<^verbatim>\<open>connection.is_connected()\<close> in the
  \<^verbatim>\<open>finally\<close> block.  The connector raises from \<^verbatim>\<open>connection.cursor()\<close> only when the
  connection is not available, and such a connection answers \<^verbatim>\<open>is_connected()\<close> with
  false from then on: the runs it can deliver satisfy
  \<open>cursor_raises e = None \<or> \<not> is_connected e\<close>.
\<close>

record env =
  connect_raises :: "mysql_error option"
  cursor_raises :: "mysql_error option"
  execute_raises :: "mysql_error option"
  commit_raises :: "mysql_error option"
  fetch_raises :: "mysql_error option"
  is_connected :: bool

text \<open>
  The storage engine: what a statement, sent with or without parameters, does to the
  database inside the open transaction.  \<open>Inl\<close> is the \<^verbatim>\<open>Error\<close> that
  \<^verbatim>\<open>cursor.execute\<close> raises; \<open>Inr\<close> carries the database as the transaction sees it
  afterwards and the result set.
\<close>

type_synonym engine =
  "string \<Rightarrow> pyval list option \<Rightarrow> database \<Rightarrow> mysql_error + (database \<times> row list)"

section \<open>DatabaseManager: connection and query primitives\<close>

definition logging :: "level \<Rightarrow> string \<Rightarrow> logarg list \<Rightarrow> world \<Rightarrow> world" where
  "logging lv msg args w = w\<lparr>log_records := log_records w @ [(lv, msg, args)]\<rparr>"

definition record_events :: "event list \<Rightarrow> world \<Rightarrow> world" where
  "record_events evs w = w\<lparr>trace := trace w @ evs\<rparr>"

text \<open>
  \<^verbatim>\<open>mysql.connector.connect(host, port, user, password, database)\<close>: raises when the
  environment says so, and also when the configured database does not exist on the
  server (unknown database).
\<close>

definition mysql_connect :: "env \<Rightarrow> world \<Rightarrow> mysql_error + unit" where
  "mysql_connect e w =
     (case connect_raises e of
        Some err \<Rightarrow> Inl err
      | None \<Rightarrow>
          (case server w of
             None \<Rightarrow> Inl (ProgrammingError ''Unknown database'')
           | Some d \<Rightarrow> Inr ()))"

text \<open>\<^verbatim>\<open>DatabaseManager.get_connection\<close> (db/core.py).  \<open>Some ()\<close> is a live connection.\<close>

definition get_connection :: "env \<Rightarrow> world \<Rightarrow> unit option \<times> world" where
  "get_connection e w =
     (case mysql_connect e w of
        Inr connection \<Rightarrow>
          (Some connection,
           logging INFO ''Connected to MySQL: {}'' [AConn] (record_events [ConnOpened] w))
      | Inl err \<Rightarrow> (None, logging ERROR ''Error connecting to MySQL: {}'' [AErr err] w))"

text \<open>
  The \<^verbatim>\<open>finally\<close> block of \<^verbatim>\<open>execute_query\<close>, \<^verbatim>\<open>fetch_one\<close>, \<^verbatim>\<open>fetch_all\<close> and
  \<^verbatim>\<open>initialize_database\<close>, once the connection exists:
  \<^verbatim>\<open>if connection.is_connected(): cursor.close(); connection.close()\<close>.
  \<open>connected\<close> is the answer of \<^verbatim>\<open>is_connected()\<close>; \<open>cursor_bound\<close> tells whether the
  assignment \<^verbatim>\<open>cursor = connection.cursor(...)\<close> completed.  Reading the unbound local
  raises \<^verbatim>\<open>UnboundLocalError\<close>, which replaces the pending return value and skips
  \<^verbatim>\<open>connection.close()\<close>.
\<close>

definition finally_close :: "bool \<Rightarrow> bool \<Rightarrow> exn + 'a \<Rightarrow> world \<Rightarrow> (exn + 'a) \<times> world" where
  "finally_close connected cursor_bound pending w =
     (if connected then
        (if cursor_bound then (pending, record_events [CursorClosed, ConnClosed] w)
         else (Inl (UnboundLocalError ''cursor''), w))
      else (pending, w))"

text \<open>\<^verbatim>\<open>if params: cursor.execute(query, params) else: cursor.execute(query)\<close>.\<close>

definition truthy :: "pyval list option \<Rightarrow> bool" where
  "truthy params = (case params of None \<Rightarrow> False | Some ps \<Rightarrow> ps \<noteq> [])"

definition cursor_execute ::
  "engine \<Rightarrow> env \<Rightarrow> string \<Rightarrow> pyval list option \<Rightarrow> world \<Rightarrow> mysql_error + (database \<times> row list)"
where
  "cursor_execute eng e query params w =
     (case execute_raises e of
        Some err \<Rightarrow> Inl err
      | None \<Rightarrow>
          (case server w of
             None \<Rightarrow> Inl (ProgrammingError ''Unknown database'')
           | Some d \<Rightarrow> (if truthy params then eng query params d else eng query None d)))"

text \<open>
  \<^verbatim>\<open>DatabaseManager.execute_query\<close> (db/core.py).  The statement runs in a transaction
  (the connector's default, autocommit off): its effect reaches the committed state only
  when \<^verbatim>\<open>connection.commit()\<close> returns.
\<close>

definition execute_query ::
  "engine \<Rightarrow> env \<Rightarrow> string \<Rightarrow> pyval list option \<Rightarrow> world \<Rightarrow> (exn + bool) \<times> world"
where
  "execute_query eng e query params w0 =
     (let w1 = logging INFO ''Executing query: {}'' [AStr query] w0;
          w2 = logging INFO ''Params: {}'' [AParams params] w1
      in case get_connection e w2 of
           (None, w3) \<Rightarrow> (Inr False, w3)
         | (Some connection, w3) \<Rightarrow>
             (case cursor_raises e of
                Some err \<Rightarrow>
                  finally_close (is_connected e) False (Inr False)
                    (logging ERROR ''Error executing query: {}'' [AErr err] w3)
              | None \<Rightarrow>
                  (let w4 = record_events [CursorOpened] w3 in
                   case cursor_execute eng e query params w4 of
                     Inl err \<Rightarrow>
                       finally_close (is_connected e) True (Inr False)
                         (logging ERROR ''Error executing query: {}'' [AErr err] w4)
                   | Inr (d', rs) \<Rightarrow>
                       (case commit_raises e of
                          Some err \<Rightarrow>
                            finally_close (is_connected e) True (Inr False)
                              (logging ERROR ''Error executing query: {}'' [AErr err] w4)
                        | None \<Rightarrow>
                            finally_close (is_connected e) True (Inr True) (w4\<lparr>server := Some d'\<rparr>)))))"

text \<open>
  \<^verbatim>\<open>cursor.fetchone()\<close> and \<^verbatim>\<open>cursor.fetchall()\<close> on the result set of the statement.
\<close>

definition fetchone :: "env \<Rightarrow> row list \<Rightarrow> mysql_error + row option" where
  "fetchone e rs =
     (case fetch_raises e of
        Some err \<Rightarrow> Inl err
      | None \<Rightarrow> Inr (case rs of [] \<Rightarrow> None | r # _ \<Rightarrow> Some r))"

definition fetchall :: "env \<Rightarrow> row list \<Rightarrow> mysql_error + row list" where
  "fetchall e rs = (case fetch_raises e of Some err \<Rightarrow> Inl err | None \<Rightarrow> Inr rs)"

text \<open>
  \<^verbatim>\<open>DatabaseManager.fetch_one\<close> and \<^verbatim>\<open>DatabaseManager.fetch_all\<close> (db/core.py).  Neither
  commits, so the committed state stays as it was.
\<close>

definition fetch_one ::
  "engine \<Rightarrow> env \<Rightarrow> string \<Rightarrow> pyval list option \<Rightarrow> world \<Rightarrow> (exn + row option) \<times> world"
where
  "fetch_one eng e query params w0 =
     (case get_connection e w0 of
        (None, w1) \<Rightarrow> (Inr None, w1)
      | (Some connection, w1) \<Rightarrow>
          (case cursor_raises e of
             Some err \<Rightarrow>
               finally_close (is_connected e) False (Inr None)
                 (logging ERROR ''Error fetching data: {}'' [AErr err] w1)
           | None \<Rightarrow>
               (let w2 = record_events [CursorOpened] w1 in
                case cursor_execute eng e query params w2 of
                  Inl err \<Rightarrow>
                    finally_close (is_connected e) True (Inr None)
                      (logging ERROR ''Error fetching data: {}'' [AErr err] w2)
                | Inr (d', rs) \<Rightarrow>
                    (case fetchone e rs of
                       Inl err \<Rightarrow>
                         finally_close (is_connected e) True (Inr None)
                           (logging ERROR ''Error fetching data: {}'' [AErr err] w2)
                     | Inr result \<Rightarrow> finally_close (is_connected e) True (Inr result) w2))))"

definition fetch_all ::
  "engine \<Rightarrow> env \<Rightarrow> string \<Rightarrow> pyval list option \<Rightarrow> world \<Rightarrow> (exn + row list) \<times> world"
where
  "fetch_all eng e query params w0 =
     (case get_connection e w0 of
        (None, w1) \<Rightarrow> (Inr [], w1)
      | (Some connection, w1) \<Rightarrow>
          (case cursor_raises e of
             Some err \<Rightarrow>
               finally_close (is_connected e) False (Inr [])
                 (logging ERROR ''Error fetching data: {}'' [AErr err] w1)
           | None \<Rightarrow>
               (let w2 = record_events [CursorOpened] w1 in
                case cursor_execute eng e query params w2 of
                  Inl err \<Rightarrow>
                    finally_close (is_connected e) True (Inr [])
                      (logging ERROR ''Error fetching data: {}'' [AErr err] w2)
                | Inr (d', rs) \<Rightarrow>
                    (case fetchall e rs of
                       Inl err \<Rightarrow>
                         finally_close (is_connected e) True (Inr [])
                           (logging ERROR ''Error fetching data: {}'' [AErr err] w2)
                     | Inr result \<Rightarrow> finally_close (is_connected e) True (Inr result) w2))))"

section \<open>UserCRUD\<close>

text \<open>Python's \<^verbatim>\<open>sep.join(items)\<close>.\<close>

fun join :: "string \<Rightarrow> string list \<Rightarrow> string" where
  "join sep [] = []"
| "join sep [x] = x"
| "join sep (x # y # ys) = x @ sep @ join sep (y # ys)"

text \<open>
  \<^verbatim>\<open>UserCRUD\<close> (db/users.py).  The field map \<open>data\<close> of \<^verbatim>\<open>update_user\<close> is a Python
  dict: its items in insertion order, the keys pairwise distinct.
\<close>

definition get_user_by_id :: "engine \<Rightarrow> env \<Rightarrow> int \<Rightarrow> world \<Rightarrow> (exn + row option) \<times> world" where
  "get_user_by_id eng e user_id w =
     fetch_one eng e ''SELECT * FROM users WHERE id = %s'' (Some [PInt user_id])
       (logging INFO ''Getting user by ID: {}'' [AInt user_id] w)"

definition get_all_users :: "engine \<Rightarrow> env \<Rightarrow> world \<Rightarrow> (exn + row list) \<times> world" where
  "get_all_users eng e w =
     fetch_all eng e ''SELECT * FROM users'' None (logging INFO ''Getting all users'' [] w)"

definition set_clause_of :: "(string \<times> pyval) list \<Rightarrow> string" where
  "set_clause_of data = join '', '' (map (\<lambda>key. key @ '' = %s'') (map fst data))"

definition update_user ::
  "engine \<Rightarrow> env \<Rightarrow> int \<Rightarrow> (string \<times> pyval) list \<Rightarrow> world \<Rightarrow> (exn + bool) \<times> world"
where
  "update_user eng e user_id data w =
     (let set_clause = set_clause_of data;
          values = map snd data @ [PInt user_id];
          query = ''UPDATE users SET '' @ set_clause @ '' WHERE id = %s''
      in execute_query eng e query (Some values)
           (logging INFO ''Updating user: {}, {}'' [AInt user_id, AData data] w))"

definition delete_user :: "engine \<Rightarrow> env \<Rightarrow> int \<Rightarrow> world \<Rightarrow> (exn + bool) \<times> world" where
  "delete_user eng e user_id w =
     execute_query eng e ''DELETE FROM users WHERE id = %s'' (Some [PInt user_id])
       (logging INFO ''Deleting user: {}'' [AInt user_id] w)"

section \<open>ProductCRUD\<close>

text \<open>\<^verbatim>\<open>ProductCRUD\<close> (db/product.py).\<close>

definition get_all_products :: "engine \<Rightarrow> env \<Rightarrow> world \<Rightarrow> (exn + row list) \<times> world" where
  "get_all_products eng e w =
     fetch_all eng e ''SELECT * FROM products'' None (logging INFO ''Getting all products'' [] w)"

definition get_product :: "engine \<Rightarrow> env \<Rightarrow> int \<Rightarrow> world \<Rightarrow> (exn + row option) \<times> world" where
  "get_product eng e product_id w =
     fetch_one eng e ''SELECT * FROM products WHERE id = %s'' (Some [PInt product_id])
       (logging INFO ''Getting product by ID: {}'' [AInt product_id] w)"

definition create_product ::
  "engine \<Rightarrow> env \<Rightarrow> string \<Rightarrow> string \<Rightarrow> pyfloat \<Rightarrow> int \<Rightarrow> bool \<Rightarrow> world \<Rightarrow> (exn + bool) \<times> world"
where
  "create_product eng e name description price quantity is_admin w =
     (if \<not> is_admin then
        (Inl (PermissionError ''Admin access required to create products''),
         logging WARNING ''Unauthorized attempt to create product - admin access required'' [] w)
      else
        execute_query eng e
          ''INSERT INTO products (name, description, price, quantity) VALUES (%s, %s, %s, %s)''
          (Some [PStr name, PStr description, PFloat price, PInt quantity])
          (logging INFO ''Creating product: {}, {}, {}, {}''
             [AStr name, AStr description, AVal (PFloat price), AInt quantity] w))"

definition delete_product :: "engine \<Rightarrow> env \<Rightarrow> int \<Rightarrow> world \<Rightarrow> (exn + bool) \<times> world" where
  "delete_product eng e product_id w =
     execute_query eng e ''DELETE FROM products WHERE id = %s'' (Some [PInt product_id])
       (logging INFO ''Deleting product: {}'' [AInt product_id] w)"

section \<open>The storage engine on the statements of the facades\<close>

text \<open>
  The SQL that the facades send is part of the program.  This section gives the meaning
  of those statements on the tables of \<^verbatim>\<open>initialize_database\<close>: primary key \<^verbatim>\<open>id\<close>, unique
  \<^verbatim>\<open>email\<close>, and the foreign key from \<^verbatim>\<open>posts.user_id\<close> to \<^verbatim>\<open>users.id\<close>.  A statement
  either fails as a whole with an \<^verbatim>\<open>Error\<close> or yields the new table contents.
\<close>

definition user_dict :: "user_row \<Rightarrow> row" where
  "user_dict r =
     [(''id'', PInt (u_id r)), (''name'', PStr (u_name r)),
      (''email'', PStr (u_email r)), (''password'', PStr (u_password r))]"

definition product_dict :: "product_row \<Rightarrow> row" where
  "product_dict r =
     [(''id'', PInt (g_id r)), (''name'', PStr (g_name r)),
      (''description'', PStr (g_description r)), (''price'', PDecimal (g_price r)),
      (''quantity'', PInt (g_quantity r))]"

definition no_such_table :: mysql_error where
  "no_such_table = ProgrammingError ''1146 Table does not exist''"

definition syntax_error :: mysql_error where
  "syntax_error = ProgrammingError ''1064 You have an error in your SQL syntax''"

definition fk_violation :: mysql_error where
  "fk_violation = IntegrityError ''1451 Cannot delete or update a parent row''"

text \<open>The parameter tuple \<^verbatim>\<open>(n,)\<close> with an int \<open>n\<close>.\<close>

fun one_int :: "pyval list option \<Rightarrow> int option" where
  "one_int (Some [PInt i]) = Some i"
| "one_int _ = None"

text \<open>\<^verbatim>\<open>SELECT * FROM users [WHERE ...]\<close> and \<^verbatim>\<open>SELECT * FROM products [WHERE ...]\<close>.\<close>

definition select_users :: "(user_row \<Rightarrow> bool) \<Rightarrow> database \<Rightarrow> mysql_error + (database \<times> row list)" where
  "select_users P d =
     (case users d of
        None \<Rightarrow> Inl no_such_table
      | Some t \<Rightarrow> Inr (d, map user_dict (filter P (rows t))))"

definition select_products ::
  "(product_row \<Rightarrow> bool) \<Rightarrow> database \<Rightarrow> mysql_error + (database \<times> row list)" where
  "select_products P d =
     (case products d of
        None \<Rightarrow> Inl no_such_table
      | Some t \<Rightarrow> Inr (d, map product_dict (filter P (rows t))))"

text \<open>Some post refers to the user id \<open>i\<close>.\<close>

definition referenced :: "int \<Rightarrow> database \<Rightarrow> bool" where
  "referenced i d =
     (case posts d of None \<Rightarrow> False | Some t \<Rightarrow> list_ex (\<lambda>p. p_user_id p = i) (rows t))"

text \<open>
  \<^verbatim>\<open>DELETE FROM users WHERE id = %s\<close>: rejected when a post still refers to the row to be
  deleted; \<^verbatim>\<open>DELETE FROM products WHERE id = %s\<close>.  A statement that matches no row
  succeeds and changes nothing.
\<close>

definition delete_from_users :: "int \<Rightarrow> database \<Rightarrow> mysql_error + (database \<times> row list)" where
  "delete_from_users i d =
     (case users d of
        None \<Rightarrow> Inl no_such_table
      | Some t \<Rightarrow>
          (if list_ex (\<lambda>r. u_id r = i) (rows t) \<and> referenced i d then Inl fk_violation
           else Inr (d\<lparr>users := Some (t\<lparr>rows := filter (\<lambda>r. u_id r \<noteq> i) (rows t)\<rparr>)\<rparr>, [])))"

definition delete_from_products :: "int \<Rightarrow> database \<Rightarrow> mysql_error + (database \<times> row list)" where
  "delete_from_products i d =
     (case products d of
        None \<Rightarrow> Inl no_such_table
      | Some t \<Rightarrow> Inr (d\<lparr>products := Some (t\<lparr>rows := filter (\<lambda>r. g_id r \<noteq> i) (rows t)\<rparr>)\<rparr>, []))"

text \<open>
  How the engine converts a bound Python value to an INT, a VARCHAR(255), a TEXT or a
  DECIMAL(10, 2) cell (all NOT NULL); \<open>None\<close> when it rejects the value.  Which values
  it accepts depends on the server's SQL mode, so the conversion is a parameter of the
  engine.
\<close>

record coercion =
  to_int :: "pyval \<Rightarrow> int option"
  to_varchar :: "pyval \<Rightarrow> string option"
  to_text :: "pyval \<Rightarrow> string option"
  to_decimal :: "pyval \<Rightarrow> int option"

text \<open>
  \<^verbatim>\<open>INSERT INTO products (name, description, price, quantity) VALUES (%s, %s, %s, %s)\<close>:
  the row is appended under the next id, or the statement fails.
\<close>

definition insert_into_products ::
  "coercion \<Rightarrow> pyval \<Rightarrow> pyval \<Rightarrow> pyval \<Rightarrow> pyval \<Rightarrow> database \<Rightarrow> mysql_error + (database \<times> row list)"
where
  "insert_into_products cv vn vd vp vq d =
     (case products d of
        None \<Rightarrow> Inl no_such_table
      | Some t \<Rightarrow>
          (case (to_varchar cv vn, to_text cv vd, to_decimal cv vp, to_int cv vq) of
             (Some n, Some ds, Some pr, Some q) \<Rightarrow>
               Inr (d\<lparr>products := Some
                      (t\<lparr>rows := rows t @
                             [\<lparr>g_id = next_id t, g_name = n, g_description = ds, g_price = pr,
                               g_quantity = q\<rparr>],
                         next_id := next_id t + 1\<rparr>)\<rparr>, [])
           | _ \<Rightarrow> Inl (DataError ''value rejected for its column'')))"

definition users_columns :: "string list" where
  "users_columns = [''id'', ''name'', ''email'', ''password'']"

text \<open>The cell of a user row under a column name, as a fetched row shows it.\<close>

definition cell :: "string \<Rightarrow> user_row \<Rightarrow> pyval option" where
  "cell col r = map_of (user_dict r) col"

text \<open>
  What a fetched row shows in column \<open>col\<close> once the bound value \<open>v\<close> has been
  assigned to it.
\<close>

definition stored :: "coercion \<Rightarrow> string \<Rightarrow> pyval \<Rightarrow> pyval option" where
  "stored cv col v =
     (if col = ''id'' then map_option PInt (to_int cv v) else map_option PStr (to_varchar cv v))"

text \<open>One assignment \<^verbatim>\<open>col = %s\<close> on one row, and a list of them from left to right.\<close>

definition assign_column :: "coercion \<Rightarrow> string \<Rightarrow> pyval \<Rightarrow> user_row \<Rightarrow> user_row option" where
  "assign_column cv col v r =
     (if col = ''id'' then map_option (\<lambda>n. r\<lparr>u_id := n\<rparr>) (to_int cv v)
      else if col = ''name'' then map_option (\<lambda>s. r\<lparr>u_name := s\<rparr>) (to_varchar cv v)
      else if col = ''email'' then map_option (\<lambda>s. r\<lparr>u_email := s\<rparr>) (to_varchar cv v)
      else if col = ''password'' then map_option (\<lambda>s. r\<lparr>u_password := s\<rparr>) (to_varchar cv v)
      else None)"

fun assign_all :: "coercion \<Rightarrow> (string \<times> pyval) list \<Rightarrow> user_row \<Rightarrow> user_row option" where
  "assign_all cv [] r = Some r"
| "assign_all cv ((col, v) # as) r =
     (case assign_column cv col v r of None \<Rightarrow> None | Some r' \<Rightarrow> assign_all cv as r')"

fun update_rows ::
  "coercion \<Rightarrow> (string \<times> pyval) list \<Rightarrow> int \<Rightarrow> user_row list \<Rightarrow> user_row list option" where
  "update_rows cv as uid [] = Some []"
| "update_rows cv as uid (r # rs) =
     (case (if u_id r = uid then assign_all cv as r else Some r) of
        None \<Rightarrow> None
      | Some r' \<Rightarrow> map_option ((#) r') (update_rows cv as uid rs))"

text \<open>The constraints of the users table, and of the posts that refer to it.\<close>

definition users_constraints :: "user_row list \<Rightarrow> database \<Rightarrow> bool" where
  "users_constraints rs d =
     (distinct (map u_id rs) \<and> distinct (map u_email rs) \<and>
      (case posts d of
         None \<Rightarrow> True
       | Some t \<Rightarrow> list_all (\<lambda>p. p_user_id p \<in> set (map u_id rs)) (rows t)))"

text \<open>
  \<^verbatim>\<open>UPDATE users SET c1 = %s, ..., cn = %s WHERE id = %s\<close> with the values bound to the
  placeholders: all assignments are applied to the rows with that id, or the statement
  fails as a whole.
\<close>

definition update_users ::
  "coercion \<Rightarrow> (string \<times> pyval) list \<Rightarrow> int \<Rightarrow> database \<Rightarrow> mysql_error + (database \<times> row list)"
where
  "update_users cv as uid d =
     (case users d of
        None \<Rightarrow> Inl no_such_table
      | Some t \<Rightarrow>
          (case update_rows cv as uid (rows t) of
             None \<Rightarrow> Inl (DataError ''value rejected for its column'')
           | Some rs \<Rightarrow>
               (if users_constraints rs d then Inr (d\<lparr>users := Some (t\<lparr>rows := rs\<rparr>)\<rparr>, [])
                else Inl (IntegrityError ''1062 or 1451 constraint fails''))))"

text \<open>Reading the text of an UPDATE statement on users.\<close>

primrec strip_prefix :: "string \<Rightarrow> string \<Rightarrow> string option" where
  "strip_prefix [] s = Some s"
| "strip_prefix (p # ps) s =
     (case s of [] \<Rightarrow> None | c # cs \<Rightarrow> if c = p then strip_prefix ps cs else None)"

definition strip_suffix :: "string \<Rightarrow> string \<Rightarrow> string option" where
  "strip_suffix suf s = map_option rev (strip_prefix (rev suf) (rev s))"

fun split_comma :: "string \<Rightarrow> string \<Rightarrow> string list" where
  "split_comma acc [] = [rev acc]"
| "split_comma acc (c # cs) =
     (if c = CHR '','' \<and> take 1 cs = '' '' then rev acc # split_comma [] (drop 1 cs)
      else split_comma (c # acc) cs)"

text \<open>
  Assignments need not take their value from a placeholder: the right-hand side may name
  a column of the row, as in \<^verbatim>\<open>name = email\<close>.  Such assignments are read for the three
  VARCHAR columns; they are carried out from left to right on the row as it stands.
\<close>

datatype source = Bound | Column string

definition varchar_columns :: "string list" where
  "varchar_columns = [''name'', ''email'', ''password'']"

definition get_text :: "string \<Rightarrow> user_row \<Rightarrow> string" where
  "get_text col r =
     (if col = ''name'' then u_name r else if col = ''email'' then u_email r else u_password r)"

definition set_text :: "string \<Rightarrow> string \<Rightarrow> user_row \<Rightarrow> user_row" where
  "set_text col s r =
     (if col = ''name'' then r\<lparr>u_name := s\<rparr>
      else if col = ''email'' then r\<lparr>u_email := s\<rparr>
      else r\<lparr>u_password := s\<rparr>)"

definition parse_assignment :: "string \<Rightarrow> (string \<times> source) option" where
  "parse_assignment piece =
     (case strip_suffix '' = %s'' piece of
        Some c \<Rightarrow> Some (c, Bound)
      | None \<Rightarrow>
          map_option (\<lambda>cc. (fst cc, Column (snd cc)))
            (List.find (\<lambda>cc. piece = fst cc @ '' = '' @ snd cc)
               (List.product varchar_columns varchar_columns)))"

fun assign_mixed ::
  "coercion \<Rightarrow> (string \<times> source) list \<Rightarrow> pyval list \<Rightarrow> user_row \<Rightarrow> user_row option" where
  "assign_mixed cv [] vs r = Some r"
| "assign_mixed cv ((c, Bound) # as) vs r =
     (case vs of
        [] \<Rightarrow> None
      | v # vs' \<Rightarrow>
          (case assign_column cv c v r of None \<Rightarrow> None | Some r' \<Rightarrow> assign_mixed cv as vs' r'))"
| "assign_mixed cv ((c, Column c') # as) vs r = assign_mixed cv as vs (set_text c (get_text c' r) r)"

fun update_rows_mixed ::
  "coercion \<Rightarrow> (string \<times> source) list \<Rightarrow> pyval list \<Rightarrow> int \<Rightarrow> user_row list \<Rightarrow>
   user_row list option" where
  "update_rows_mixed cv as vs uid [] = Some []"
| "update_rows_mixed cv as vs uid (r # rs) =
     (case (if u_id r = uid then assign_mixed cv as vs r else Some r) of
        None \<Rightarrow> None
      | Some r' \<Rightarrow> map_option ((#) r') (update_rows_mixed cv as vs uid rs))"

definition update_users_mixed ::
  "coercion \<Rightarrow> (string \<times> source) list \<Rightarrow> pyval list \<Rightarrow> int \<Rightarrow> database \<Rightarrow>
   mysql_error + (database \<times> row list)"
where
  "update_users_mixed cv as vs uid d =
     (case users d of
        None \<Rightarrow> Inl no_such_table
      | Some t \<Rightarrow>
          (case update_rows_mixed cv as vs uid (rows t) of
             None \<Rightarrow> Inl (DataError ''value rejected for its column'')
           | Some rs \<Rightarrow>
               (if users_constraints rs d then Inr (d\<lparr>users := Some (t\<lparr>rows := rs\<rparr>)\<rparr>, [])
                else Inl (IntegrityError ''1062 or 1451 constraint fails''))))"

definition mixed_statement ::
  "coercion \<Rightarrow> string list \<Rightarrow> pyval list option \<Rightarrow> database \<Rightarrow>
   (mysql_error + (database \<times> row list)) option"
where
  "mixed_statement cv pieces ps d =
     (case those (map parse_assignment pieces) of
        None \<Rightarrow> None
      | Some as \<Rightarrow>
          (case ps of
             None \<Rightarrow> None
           | Some vs \<Rightarrow>
               (if list_all (\<lambda>a. fst a \<in> set users_columns) as \<and> distinct (map fst as) \<and>
                   length vs = length (filter (\<lambda>a. snd a = Bound) as) + 1
                then (case last vs of
                        PInt uid \<Rightarrow> Some (update_users_mixed cv as (butlast vs) uid d)
                      | _ \<Rightarrow> None)
                else None)))"

text \<open>
  The statement \<^verbatim>\<open>UPDATE users SET <assignments> WHERE id = %s\<close>.  An empty assignment
  list is a syntax error.  Assignments \<^verbatim>\<open>col = %s\<close> to distinct columns of the table, with
  one bound value each and an int for the id, are carried out; so are lists in which some
  assignment copies a VARCHAR column.  Any other text between \<^verbatim>\<open>SET\<close> and \<^verbatim>\<open>WHERE\<close> is
  not interpreted here (\<open>None\<close>).
\<close>

definition update_users_stmt ::
  "coercion \<Rightarrow> string \<Rightarrow> pyval list option \<Rightarrow> database \<Rightarrow>
   (mysql_error + (database \<times> row list)) option"
where
  "update_users_stmt cv q ps d =
     (case strip_prefix ''UPDATE users SET '' q of
        None \<Rightarrow> None
      | Some rest \<Rightarrow>
          (case strip_suffix '' WHERE id = %s'' rest of
             None \<Rightarrow> None
           | Some clause \<Rightarrow>
               (if clause = [] then Some (Inl syntax_error)
                else
                  (case those (map (strip_suffix '' = %s'') (split_comma [] clause)) of
                     None \<Rightarrow> mixed_statement cv (split_comma [] clause) ps d
                   | Some cols \<Rightarrow>
                       (case ps of
                          None \<Rightarrow> None
                        | Some vs \<Rightarrow>
                            (if list_all (\<lambda>c. c \<in> set users_columns) cols \<and> distinct cols \<and>
                                length vs = length cols + 1
                             then (case last vs of
                                     PInt uid \<Rightarrow> Some (update_users cv (zip cols (butlast vs)) uid d)
                                   | _ \<Rightarrow> None)
                             else None))))))"

text \<open>
  The engine on the statements of \<^verbatim>\<open>UserCRUD\<close> and \<^verbatim>\<open>ProductCRUD\<close> that the properties
  below are about.  Every other statement, and every statement of these with parameters
  of another shape, is left to \<open>other\<close>, about which nothing is assumed.
\<close>

definition mysql :: "coercion \<Rightarrow> engine \<Rightarrow> engine" where
  "mysql cv other q ps d =
     (if q = ''SELECT * FROM users WHERE id = %s'' then
        (case one_int ps of Some i \<Rightarrow> select_users (\<lambda>r. u_id r = i) d | None \<Rightarrow> other q ps d)
      else if q = ''SELECT * FROM users'' then
        (case ps of None \<Rightarrow> select_users (\<lambda>r. True) d | Some vs \<Rightarrow> other q ps d)
      else if q = ''DELETE FROM users WHERE id = %s'' then
        (case one_int ps of Some i \<Rightarrow> delete_from_users i d | None \<Rightarrow> other q ps d)
      else if q = ''SELECT * FROM products WHERE id = %s'' then
        (case one_int ps of Some i \<Rightarrow> select_products (\<lambda>r. g_id r = i) d | None \<Rightarrow> other q ps d)
      else if q = ''SELECT * FROM products'' then
        (case ps of None \<Rightarrow> select_products (\<lambda>r. True) d | Some vs \<Rightarrow> other q ps d)
      else if q = ''DELETE FROM products WHERE id = %s'' then
        (case one_int ps of Some i \<Rightarrow> delete_from_products i d | None \<Rightarrow> other q ps d)
      else if q = ''INSERT INTO products (name, description, price, quantity) VALUES (%s, %s, %s, %s)'' then
        (case ps of
           Some [vn, vd, vp, vq] \<Rightarrow> insert_into_products cv vn vd vp vq d
         | _ \<Rightarrow> other q ps d)
      else
        (case update_users_stmt cv q ps d of Some result \<Rightarrow> result | None \<Rightarrow> other q ps d))"

section \<open>Schema initialisation\<close>

text \<open>
  The statements of \<^verbatim>\<open>initialize_database\<close> (db/core.py), each as the change it makes
  to the server.  \<^verbatim>\<open>CREATE DATABASE IF NOT EXISTS\<close> and \<^verbatim>\<open>CREATE TABLE IF NOT EXISTS\<close>
  leave what exists untouched; the posts table needs the users table that its foreign
  key refers to.
\<close>

definition create_database :: "database option \<Rightarrow> mysql_error + database option" where
  "create_database s =
     (case s of
        None \<Rightarrow> Inr (Some \<lparr>users = None, posts = None, products = None\<rparr>)
      | Some d \<Rightarrow> Inr (Some d))"

definition use_database :: "database option \<Rightarrow> mysql_error + database option" where
  "use_database s =
     (case s of None \<Rightarrow> Inl (ProgrammingError ''1049 Unknown database'') | Some d \<Rightarrow> Inr (Some d))"

text \<open>A statement that runs inside the selected database.\<close>

definition in_database ::
  "(database \<Rightarrow> mysql_error + database) \<Rightarrow> database option \<Rightarrow> mysql_error + database option" where
  "in_database f s =
     (case s of
        None \<Rightarrow> Inl (ProgrammingError ''1046 No database selected'')
      | Some d \<Rightarrow> (case f d of Inl err \<Rightarrow> Inl err | Inr d' \<Rightarrow> Inr (Some d')))"

definition create_users_table :: "database \<Rightarrow> mysql_error + database" where
  "create_users_table d =
     (case users d of
        None \<Rightarrow> Inr (d\<lparr>users := Some \<lparr>rows = [], next_id = 1\<rparr>\<rparr>)
      | Some t \<Rightarrow> Inr d)"

definition create_posts_table :: "database \<Rightarrow> mysql_error + database" where
  "create_posts_table d =
     (case posts d of
        None \<Rightarrow>
          (case users d of
             None \<Rightarrow> Inl (ProgrammingError ''1824 Failed to open the referenced table'')
           | Some t \<Rightarrow> Inr (d\<lparr>posts := Some \<lparr>rows = [], next_id = 1\<rparr>\<rparr>))
      | Some t \<Rightarrow> Inr d)"

definition create_products_table :: "database \<Rightarrow> mysql_error + database" where
  "create_products_table d =
     (case products d of
        None \<Rightarrow> Inr (d\<lparr>products := Some \<lparr>rows = [], next_id = 1\<rparr>\<rparr>)
      | Some t \<Rightarrow> Inr d)"

text \<open>
  The rows of the three INSERT statements.  For posts these are the rows of the second
  assignment to \<^verbatim>\<open>load_posts_db_data\<close>, which replaces the first before it is used.
\<close>

definition seed_users :: "(string \<times> string) list" where
  "seed_users =
     [(''John Doe'', ''john.doe@example.com''),
      (''Jane Smith'', ''jane.smith@example.com''),
      (''Bob Johnson'', ''bob.johnson@example.com''),
      (''Alice Brown'', ''alice.brown@example.com''),
      (''Charlie Wilson'', ''charlie.wilson@example.com'')]"

definition seed_products :: "(string \<times> string \<times> int \<times> int) list" where
  "seed_products =
     [(''MacBook Pro 16 inch'', ''Apple MacBook Pro with M3 chip, 16GB RAM, 512GB SSD'', 249900, 25),
      (''Dell XPS 13'', ''Ultra-portable laptop with Intel i7, 16GB RAM, 1TB SSD'', 129900, 40),
      (''iPhone 15 Pro'', ''Latest iPhone with A17 Pro chip, 128GB storage, Titanium design'', 99900, 75),
      (''Samsung Galaxy S24'', ''Android flagship with 256GB storage and advanced camera system'', 89900, 60),
      (''Sony WH-1000XM5'', ''Premium noise-canceling wireless headphones'', 39900, 120)]"

definition seed_posts :: "(string \<times> string \<times> int) list" where
  "seed_posts =
     [(''My Journey with FastAPI'',
       ''John shares his experience building scalable APIs with FastAPI and the lessons learned along the way'', 1),
      (''Designing User-Centric Databases'',
       ''Jane discusses her approach to creating database schemas that prioritize user experience and performance'', 1),
      (''Advanced Python Patterns I Use Daily'',
       ''Bob reveals the Python techniques and patterns that have transformed his development workflow'', 3),
      (''Building Modern Web Apps: My Story'',
       ''Alice walks through her process of creating full-stack applications using cutting-edge technologies'', 4),
      (''How I Secure My APIs'',
       ''Charlie explains his comprehensive approach to API security and the tools he relies on'', 1)]"

text \<open>
  \<^verbatim>\<open>INSERT INTO users ... ON DUPLICATE KEY UPDATE name=VALUES(name)\<close>, one row: when a
  row with that email exists its name is set and nothing is inserted; otherwise the row
  is inserted under the next id with the password the server computed from
  \<^verbatim>\<open>MD5(RAND())\<close>.  How far the AUTO\_INCREMENT counter moves when nothing is inserted is
  left out: no id is taken from it then.
\<close>

definition upsert_user :: "string \<Rightarrow> string \<times> string \<Rightarrow> user_row table \<Rightarrow> user_row table" where
  "upsert_user pw seed t =
     (if list_ex (\<lambda>r. u_email r = snd seed) (rows t) then
        t\<lparr>rows := map (\<lambda>r. if u_email r = snd seed then r\<lparr>u_name := fst seed\<rparr> else r) (rows t)\<rparr>
      else
        t\<lparr>rows := rows t @
               [\<lparr>u_id = next_id t, u_name = fst seed, u_email = snd seed, u_password = pw\<rparr>],
          next_id := next_id t + 1\<rparr>)"

fun upsert_users ::
  "(nat \<Rightarrow> string) \<Rightarrow> nat \<Rightarrow> (string \<times> string) list \<Rightarrow> user_row table \<Rightarrow> user_row table" where
  "upsert_users rand k [] t = t"
| "upsert_users rand k (seed # seeds) t = upsert_users rand (Suc k) seeds (upsert_user (rand k) seed t)"

definition load_users_db_data :: "(nat \<Rightarrow> string) \<Rightarrow> database \<Rightarrow> mysql_error + database" where
  "load_users_db_data rand d =
     (case users d of
        None \<Rightarrow> Inl no_such_table
      | Some t \<Rightarrow> Inr (d\<lparr>users := Some (upsert_users rand 0 seed_users t)\<rparr>))"

text \<open>The plain INSERT statements: every row is appended under the next id.\<close>

fun insert_products ::
  "(string \<times> string \<times> int \<times> int) list \<Rightarrow> product_row table \<Rightarrow> product_row table" where
  "insert_products [] t = t"
| "insert_products ((n, ds, pr, q) # seeds) t =
     insert_products seeds
       (t\<lparr>rows := rows t @
              [\<lparr>g_id = next_id t, g_name = n, g_description = ds, g_price = pr, g_quantity = q\<rparr>],
          next_id := next_id t + 1\<rparr>)"

definition load_products_db_data :: "database \<Rightarrow> mysql_error + database" where
  "load_products_db_data d =
     (case products d of
        None \<Rightarrow> Inl no_such_table
      | Some t \<Rightarrow> Inr (d\<lparr>products := Some (insert_products seed_products t)\<rparr>))"

fun insert_posts :: "(string \<times> string \<times> int) list \<Rightarrow> post_row table \<Rightarrow> post_row table" where
  "insert_posts [] t = t"
| "insert_posts ((ti, c, u) # seeds) t =
     insert_posts seeds
       (t\<lparr>rows := rows t @ [\<lparr>p_id = next_id t, p_title = ti, p_content = c, p_user_id = u\<rparr>],
          next_id := next_id t + 1\<rparr>)"

text \<open>The INSERT into posts fails as a whole when a row names a user id that does not exist.\<close>

definition load_posts_db_data :: "database \<Rightarrow> mysql_error + database" where
  "load_posts_db_data d =
     (case posts d of
        None \<Rightarrow> Inl no_such_table
      | Some t \<Rightarrow>
          (case users d of
             None \<Rightarrow> Inl no_such_table
           | Some ut \<Rightarrow>
               (if list_all (\<lambda>seed. list_ex (\<lambda>r. u_id r = snd (snd seed)) (rows ut)) seed_posts
                then Inr (d\<lparr>posts := Some (insert_posts seed_posts t)\<rparr>)
                else Inl (IntegrityError ''1452 Cannot add or update a child row''))))"

text \<open>
  The eight \<^verbatim>\<open>cursor.execute\<close> calls in source order.  The flag marks the statements
  that the server commits on its own (CREATE DATABASE, CREATE TABLE); the three INSERT
  statements stay in the open transaction until \<^verbatim>\<open>connection.commit()\<close>.
\<close>

definition statements ::
  "(nat \<Rightarrow> string) \<Rightarrow> (bool \<times> (database option \<Rightarrow> mysql_error + database option)) list" where
  "statements rand =
     [(True, create_database),
      (False, use_database),
      (True, in_database create_users_table),
      (True, in_database create_posts_table),
      (True, in_database create_products_table),
      (False, in_database (load_users_db_data rand)),
      (False, in_database load_products_db_data),
      (False, in_database load_posts_db_data)]"

text \<open>
  What \<^verbatim>\<open>initialize_database\<close> meets: the outcome of \<^verbatim>\<open>connect\<close> (without a database),
  the first answer of \<^verbatim>\<open>is_connected()\<close>, the outcome of \<^verbatim>\<open>cursor()\<close>, a fault of the
  k-th \<^verbatim>\<open>execute\<close> outside the statement itself, the outcome of \<^verbatim>\<open>commit()\<close>, the answer
  of \<^verbatim>\<open>is_connected()\<close> in the \<^verbatim>\<open>finally\<close> block, and the password the server computes
  for the k-th row of the INSERT into users.
\<close>

record init_env =
  i_connect_raises :: "mysql_error option"
  i_connected :: bool
  i_cursor_raises :: "mysql_error option"
  i_execute_raises :: "nat \<Rightarrow> mysql_error option"
  i_commit_raises :: "mysql_error option"
  i_is_connected :: bool
  i_rand :: "nat \<Rightarrow> string"

text \<open>
  Running the statements from the k-th on.  The state is the committed server state and
  the state the transaction sees; the result names the error that stopped the run, if
  any.
\<close>

fun exec_stmts ::
  "(nat \<Rightarrow> mysql_error option) \<Rightarrow> nat \<Rightarrow>
   (bool \<times> (database option \<Rightarrow> mysql_error + database option)) list \<Rightarrow>
   database option \<times> database option \<Rightarrow> mysql_error option \<times> database option \<times> database option"
where
  "exec_stmts fault k [] (committed, view) = (None, committed, view)"
| "exec_stmts fault k ((autocommit, f) # fs) (committed, view) =
     (case fault k of
        Some err \<Rightarrow> (Some err, committed, view)
      | None \<Rightarrow>
          (case f view of
             Inl err \<Rightarrow> (Some err, committed, view)
           | Inr view' \<Rightarrow>
               exec_stmts fault (Suc k) fs (if autocommit then view' else committed, view')))"

text \<open>
  \<^verbatim>\<open>DatabaseManager.initialize_database\<close> (db/core.py).  The result is \<open>Some True\<close>,
  \<open>Some False\<close>, or \<open>None\<close> when the function falls off its end because the first
  \<^verbatim>\<open>is_connected()\<close> was false.  When \<^verbatim>\<open>connect\<close> raises, \<^verbatim>\<open>connection\<close> is not among the
  locals and the \<^verbatim>\<open>finally\<close> block does nothing.
\<close>

definition initialize_database :: "init_env \<Rightarrow> world \<Rightarrow> (exn + bool option) \<times> world" where
  "initialize_database e w =
     (case i_connect_raises e of
        Some err \<Rightarrow>
          (Inr (Some False), logging ERROR ''Error initializing database: {}'' [AErr err] w)
      | None \<Rightarrow>
          (let w1 = record_events [ConnOpened] w in
           if \<not> i_connected e then finally_close (i_is_connected e) False (Inr None) w1
           else
             (case i_cursor_raises e of
                Some err \<Rightarrow>
                  finally_close (i_is_connected e) False (Inr (Some False))
                    (logging ERROR ''Error initializing database: {}'' [AErr err] w1)
              | None \<Rightarrow>
                  (let w2 = record_events [CursorOpened] w1 in
                   case exec_stmts (i_execute_raises e) 0 (statements (i_rand e))
                          (server w2, server w2) of
                     (Some err, committed, view) \<Rightarrow>
                       finally_close (i_is_connected e) True (Inr (Some False))
                         (logging ERROR ''Error initializing database: {}'' [AErr err]
                            (w2\<lparr>server := committed\<rparr>))
                   | (None, committed, view) \<Rightarrow>
                       (case i_commit_raises e of
                          Some err \<Rightarrow>
                            finally_close (i_is_connected e) True (Inr (Some False))
                              (logging ERROR ''Error initializing database: {}'' [AErr err]
                                 (w2\<lparr>server := committed\<rparr>))
                        | None \<Rightarrow>
                            finally_close (i_is_connected e) True (Inr (Some True))
                              (logging INFO ''Database initialized successfully'' []
                                 (w2\<lparr>server := view\<rparr>)))))))"

text \<open>
  Notions for stating what seeding leaves behind: a seeded user is present in the users
  table when some row has its email and every row with its email has its name; the
  stored data keep \<^verbatim>\<open>email\<close> unique; and the seeded columns of a product and a post row
  (all but the id).
\<close>

definition present :: "string \<times> string \<Rightarrow> user_row table \<Rightarrow> bool" where
  "present seed t =
     (list_ex (\<lambda>r. u_email r = snd seed) (rows t) \<and>
      list_all (\<lambda>r. u_email r = snd seed \<longrightarrow> u_name r = fst seed) (rows t))"

definition unique_emails :: "database option \<Rightarrow> bool" where
  "unique_emails s =
     (case s of
        None \<Rightarrow> True
      | Some d \<Rightarrow> (case users d of None \<Rightarrow> True | Some t \<Rightarrow> distinct (map u_email (rows t))))"

definition product_fields :: "product_row \<Rightarrow> string \<times> string \<times> int \<times> int" where
  "product_fields r = (g_name r, g_description r, g_price r, g_quantity r)"

definition post_fields :: "post_row \<Rightarrow> string \<times> string \<times> int" where
  "post_fields r = (p_title r, p_content r, p_user_id r)"

section \<open>Sample data\<close>

text \<open>
  A small database, an environment without faults and the values used in examples.  The
  conversion \<open>strict\<close> accepts the values that a column holds as they are, with no
  rounding and no truncation, and rejects every other value.
\<close>

definition in_range :: "int \<Rightarrow> int option" where
  "in_range h = (if \<bar>h\<bar> \<le> 9999999999 then Some h else None)"

definition strict :: coercion where
  "strict =
     \<lparr>to_int = (\<lambda>v. case v of
                     PInt n \<Rightarrow> (if - 2147483648 \<le> n \<and> n \<le> 2147483647 then Some n else None)
                   | _ \<Rightarrow> None),
      to_varchar = (\<lambda>v. case v of PStr s \<Rightarrow> (if length s \<le> 255 then Some s else None) | _ \<Rightarrow> None),
      to_text = (\<lambda>v. case v of PStr s \<Rightarrow> (if length s \<le> 65535 then Some s else None) | _ \<Rightarrow> None),
      to_decimal = (\<lambda>v. case v of
                         PFloat (m, e) \<Rightarrow>
                           (if 0 \<le> e then in_range (m * 2 ^ nat e * 100)
                            else if (100 * m) mod 2 ^ nat (- e) = 0
                            then in_range ((100 * m) div 2 ^ nat (- e))
                            else None)
                       | PInt n \<Rightarrow> in_range (n * 100)
                       | PDecimal h \<Rightarrow> in_range h
                       | _ \<Rightarrow> None)\<rparr>"

definition unsupported :: engine where
  "unsupported q ps d = Inl (ProgrammingError ''statement outside the modelled fragment'')"

definition no_faults :: env where
  "no_faults =
     \<lparr>connect_raises = None, cursor_raises = None, execute_raises = None,
      commit_raises = None, fetch_raises = None, is_connected = True\<rparr>"

definition sample_db :: database where
  "sample_db =
     \<lparr>users = Some \<lparr>rows =
          [\<lparr>u_id = 1, u_name = ''Ann'', u_email = ''ann@example.com'', u_password = ''secret-1''\<rparr>,
           \<lparr>u_id = 2, u_name = ''Ben'', u_email = ''ben@example.com'', u_password = ''secret-2''\<rparr>],
          next_id = 3\<rparr>,
      posts = Some \<lparr>rows =
          [\<lparr>p_id = 1, p_title = ''Hello'', p_content = ''First post'', p_user_id = 1\<rparr>],
          next_id = 2\<rparr>,
      products = Some \<lparr>rows =
          [\<lparr>g_id = 1, g_name = ''Lamp'', g_description = ''Desk lamp'', g_price = 1999, g_quantity = 4\<rparr>],
          next_id = 2\<rparr>\<rparr>"

definition sample_world :: world where
  "sample_world = \<lparr>server = Some sample_db, log_records = [], trace = []\<rparr>"

definition cursor_unavailable :: env where
  "cursor_unavailable =
     \<lparr>connect_raises = None,
      cursor_raises = Some (OperationalError ''MySQL Connection not available.''),
      execute_raises = None, commit_raises = None, fetch_raises = None, is_connected = False\<rparr>"

definition connect_fault :: env where
  "connect_fault =
     \<lparr>connect_raises = Some (InterfaceError ''2003 Cannot connect to MySQL server''),
      cursor_raises = None, execute_raises = None, commit_raises = None,
      fetch_raises = None, is_connected = False\<rparr>"

definition lost_connection :: env where
  "lost_connection =
     \<lparr>connect_raises = None, cursor_raises = None,
      execute_raises = Some (OperationalError ''2013 Lost connection to MySQL server during query''),
      commit_raises = None, fetch_raises = None, is_connected = False\<rparr>"

definition init_no_faults :: init_env where
  "init_no_faults =
     \<lparr>i_connect_raises = None, i_connected = True, i_cursor_raises = None,
      i_execute_raises = (\<lambda>k. None), i_commit_raises = None, i_is_connected = True,
      i_rand = (\<lambda>k. ''0123456789abcdef'')\<rparr>"

definition fresh_world :: world where
  "fresh_world = \<lparr>server = None, log_records = [], trace = []\<rparr>"

section \<open>Facts about the primitives\<close>

text \<open>Logging and event recording touch one component of the world each.\<close>

lemma logging_proj [simp]:
  "server (logging lv m a w) = server w"
  "trace (logging lv m a w) = trace w"
  "log_records (logging lv m a w) = log_records w @ [(lv, m, a)]"
  by (simp_all add: logging_def)

lemma record_events_proj [simp]:
  "server (record_events evs w) = server w"
  "trace (record_events evs w) = trace w @ evs"
  "log_records (record_events evs w) = log_records w"
  by (simp_all add: record_events_def)

lemma server_update_proj [simp]:
  "logging lv m a (w\<lparr>server := s\<rparr>) = (logging lv m a w)\<lparr>server := s\<rparr>"
  "record_events evs (w\<lparr>server := s\<rparr>) = (record_events evs w)\<lparr>server := s\<rparr>"
  by (simp_all add: logging_def record_events_def)

lemma get_connection_cases:
  "get_connection e w =
     (if connect_raises e = None \<and> server w \<noteq> None
      then (Some (), logging INFO ''Connected to MySQL: {}'' [AConn] (record_events [ConnOpened] w))
      else (None, logging ERROR ''Error connecting to MySQL: {}''
              [AErr (case connect_raises e of Some err \<Rightarrow> err
                     | None \<Rightarrow> ProgrammingError ''Unknown database'')] w))"
  by (simp add: get_connection_def mysql_connect_def split: option.splits)

lemma cursor_execute_empty:
  "cursor_execute eng e q (Some []) w = cursor_execute eng e q None w"
  by (simp add: cursor_execute_def truthy_def split: option.splits)

lemma cursor_execute_log [simp]:
  "cursor_execute eng e q ps (logging lv m a w) = cursor_execute eng e q ps w"
  "cursor_execute eng e q ps (record_events evs w) = cursor_execute eng e q ps w"
  by (simp_all add: cursor_execute_def split: option.splits)

text \<open>
  The result, the committed data and the resource events of the three primitives, by the
  outcome of each library call.
\<close>

lemma execute_query_result:
  "fst (execute_query eng e q ps w) =
     (if connect_raises e \<noteq> None \<or> server w = None then Inr False
      else if cursor_raises e \<noteq> None then
        (if is_connected e then Inl (UnboundLocalError ''cursor'') else Inr False)
      else (case cursor_execute eng e q ps w of
              Inl err \<Rightarrow> Inr False
            | Inr res \<Rightarrow> Inr (commit_raises e = None)))"
  by (auto simp: execute_query_def Let_def get_connection_cases finally_close_def
      split: option.splits sum.splits prod.splits)

lemma execute_query_server:
  "server (snd (execute_query eng e q ps w)) =
     (if fst (execute_query eng e q ps w) = Inr True
      then (case cursor_execute eng e q ps w of Inl err \<Rightarrow> server w | Inr res \<Rightarrow> Some (fst res))
      else server w)"
  by (auto simp: execute_query_def Let_def get_connection_cases finally_close_def
      split: option.splits sum.splits prod.splits)

lemma execute_query_trace:
  "trace (snd (execute_query eng e q ps w)) =
     trace w @
     (if connect_raises e \<noteq> None \<or> server w = None then []
      else if cursor_raises e \<noteq> None then [ConnOpened]
      else if is_connected e then [ConnOpened, CursorOpened, CursorClosed, ConnClosed]
      else [ConnOpened, CursorOpened])"
  by (auto simp: execute_query_def Let_def get_connection_cases finally_close_def
      split: option.splits sum.splits prod.splits)

lemma fetch_one_result:
  "fst (fetch_one eng e q ps w) =
     (if connect_raises e \<noteq> None \<or> server w = None then Inr None
      else if cursor_raises e \<noteq> None then
        (if is_connected e then Inl (UnboundLocalError ''cursor'') else Inr None)
      else (case cursor_execute eng e q ps w of
              Inl err \<Rightarrow> Inr None
            | Inr res \<Rightarrow> (case fetchone e (snd res) of Inl err \<Rightarrow> Inr None | Inr r \<Rightarrow> Inr r)))"
  by (auto simp: fetch_one_def Let_def get_connection_cases finally_close_def
      split: option.splits sum.splits prod.splits)

lemma fetch_all_result:
  "fst (fetch_all eng e q ps w) =
     (if connect_raises e \<noteq> None \<or> server w = None then Inr []
      else if cursor_raises e \<noteq> None then
        (if is_connected e then Inl (UnboundLocalError ''cursor'') else Inr [])
      else (case cursor_execute eng e q ps w of
              Inl err \<Rightarrow> Inr []
            | Inr res \<Rightarrow> (case fetchall e (snd res) of Inl err \<Rightarrow> Inr [] | Inr rs \<Rightarrow> Inr rs)))"
  by (auto simp: fetch_all_def Let_def get_connection_cases finally_close_def
      split: option.splits sum.splits prod.splits)

lemma fetch_one_trace:
  "trace (snd (fetch_one eng e q ps w)) =
     trace w @
     (if connect_raises e \<noteq> None \<or> server w = None then []
      else if cursor_raises e \<noteq> None then [ConnOpened]
      else if is_connected e then [ConnOpened, CursorOpened, CursorClosed, ConnClosed]
      else [ConnOpened, CursorOpened])"
  by (auto simp: fetch_one_def Let_def get_connection_cases finally_close_def
      split: option.splits sum.splits prod.splits)

lemma fetch_all_trace:
  "trace (snd (fetch_all eng e q ps w)) =
     trace w @
     (if connect_raises e \<noteq> None \<or> server w = None then []
      else if cursor_raises e \<noteq> None then [ConnOpened]
      else if is_connected e then [ConnOpened, CursorOpened, CursorClosed, ConnClosed]
      else [ConnOpened, CursorOpened])"
  by (auto simp: fetch_all_def Let_def get_connection_cases finally_close_def
      split: option.splits sum.splits prod.splits)

lemma fetch_server:
  "server (snd (fetch_one eng e q ps w)) = server w"
  "server (snd (fetch_all eng e q ps w)) = server w"
  by (auto simp: fetch_one_def fetch_all_def Let_def get_connection_cases finally_close_def
      split: option.splits sum.splits prod.splits)

lemma execute_query_True_server:
  assumes "execute_query eng e q (Some (p # ps)) w = (Inr True, w1)"
  shows "\<exists>d d' rs. server w = Some d \<and> eng q (Some (p # ps)) d = Inr (d', rs) \<and> server w1 = Some d'"
proof -
  from assms have t: "fst (execute_query eng e q (Some (p # ps)) w) = Inr True"
    and w1: "w1 = snd (execute_query eng e q (Some (p # ps)) w)" by simp_all
  from t obtain d d' rs where d: "server w = Some d" "execute_raises e = None"
      "eng q (Some (p # ps)) d = Inr (d', rs)"
    by (auto simp: execute_query_result cursor_execute_def truthy_def
        split: option.splits sum.splits if_splits)
  then have "cursor_execute eng e q (Some (p # ps)) w = Inr (d', rs)"
    by (simp add: cursor_execute_def truthy_def)
  with t w1 have "server w1 = Some d'" by (simp add: execute_query_server)
  with d show ?thesis by blast
qed

section \<open>Connection factory\<close>

text \<open>
  C7.  \<^verbatim>\<open>get_connection\<close> returns to its caller in every case: when
  \<^verbatim>\<open>mysql.connector.connect\<close> succeeds it logs one INFO record and returns the live
  connection, and when \<^verbatim>\<open>connect\<close> raises \<^verbatim>\<open>Error\<close> (server unreachable, access denied,
  unknown database) it logs one ERROR record carrying that error and returns \<open>None\<close>.
  It leaves the stored data as it was.
\<close>

theorem get_connection_never_raises:
  "(\<exists>err. mysql_connect e w = Inl err \<and>
          get_connection e w =
            (None, w\<lparr>log_records := log_records w @ [(ERROR, ''Error connecting to MySQL: {}'', [AErr err])]\<rparr>))
   \<or> (mysql_connect e w = Inr () \<and>
       get_connection e w =
         (Some (), w\<lparr>log_records := log_records w @ [(INFO, ''Connected to MySQL: {}'', [AConn])],
                     trace := trace w @ [ConnOpened]\<rparr>))"
proof (cases "mysql_connect e w")
  case (Inl err)
  then show ?thesis by (simp add: get_connection_def logging_def)
next
  case (Inr c)
  then show ?thesis by (simp add: get_connection_def logging_def record_events_def)
qed

section \<open>Product authorization check\<close>

lemma mysql_products_insert:
  "mysql cv other
     ''INSERT INTO products (name, description, price, quantity) VALUES (%s, %s, %s, %s)''
     (Some [vn, vd, vp, vq]) d = insert_into_products cv vn vd vp vq d"
  by (simp add: mysql_def)

text \<open>
  C1.  For every name, description, price and quantity, \<^verbatim>\<open>create_product\<close> with
  \<^verbatim>\<open>is_admin\<close> false logs a warning and raises \<^verbatim>\<open>PermissionError\<close>; it opens no connection
  and leaves the stored data, the products table included, as it was.  With \<^verbatim>\<open>is_admin\<close>
  true it is \<^verbatim>\<open>execute_query\<close> on the INSERT statement with the four values bound: when
  nothing fails and the engine accepts the values the call returns \<open>True\<close>, and whenever
  it returns \<open>True\<close> the products table has gained exactly the row of these values
  under the next id, the other tables being as before.
\<close>

theorem create_product_admin_only:
  "create_product eng e name description price quantity False w =
     (Inl (PermissionError ''Admin access required to create products''),
      w\<lparr>log_records := log_records w @
          [(WARNING, ''Unauthorized attempt to create product - admin access required'', [])]\<rparr>)
   \<and> server (snd (create_product eng e name description price quantity False w)) = server w
   \<and> trace (snd (create_product eng e name description price quantity False w)) = trace w
   \<and> create_product eng e name description price quantity True w =
       execute_query eng e
         ''INSERT INTO products (name, description, price, quantity) VALUES (%s, %s, %s, %s)''
         (Some [PStr name, PStr description, PFloat price, PInt quantity])
         (logging INFO ''Creating product: {}, {}, {}, {}''
            [AStr name, AStr description, AVal (PFloat price), AInt quantity] w)
   \<and> (mysql_connect e w = Inr () \<and> cursor_raises e = None \<and> execute_raises e = None \<and>
       commit_raises e = None \<and> server w = Some d \<and> products d = Some t \<and>
       to_varchar cv (PStr name) = Some n \<and> to_text cv (PStr description) = Some ds \<and>
       to_decimal cv (PFloat price) = Some pr \<and> to_int cv (PInt quantity) = Some q
       \<longrightarrow> fst (create_product (mysql cv other) e name description price quantity True w) =
             Inr True)
   \<and> (create_product (mysql cv other) e name description price quantity True w = (Inr True, w')
       \<longrightarrow> (\<exists>d0 t0 n0 ds0 pr0 q0.
              server w = Some d0 \<and> products d0 = Some t0 \<and>
              to_varchar cv (PStr name) = Some n0 \<and> to_text cv (PStr description) = Some ds0 \<and>
              to_decimal cv (PFloat price) = Some pr0 \<and> to_int cv (PInt quantity) = Some q0 \<and>
              server w' = Some (d0\<lparr>products := Some
                 (t0\<lparr>rows := rows t0 @
                        [\<lparr>g_id = next_id t0, g_name = n0, g_description = ds0, g_price = pr0,
                          g_quantity = q0\<rparr>],
                     next_id := next_id t0 + 1\<rparr>)\<rparr>)))"
proof -
  let ?q = "''INSERT INTO products (name, description, price, quantity) VALUES (%s, %s, %s, %s)''"
  let ?ps = "[PStr name, PStr description, PFloat price, PInt quantity]"
  let ?w = "logging INFO ''Creating product: {}, {}, {}, {}''
            [AStr name, AStr description, AVal (PFloat price), AInt quantity] w"
  have a: "create_product eng e name description price quantity False w =
     (Inl (PermissionError ''Admin access required to create products''),
      w\<lparr>log_records := log_records w @
          [(WARNING, ''Unauthorized attempt to create product - admin access required'', [])]\<rparr>)"
    by (simp add: create_product_def logging_def)
  have b: "server (snd (create_product eng e name description price quantity False w)) = server w"
    "trace (snd (create_product eng e name description price quantity False w)) = trace w"
    by (simp_all add: create_product_def)
  have c: "create_product eng e name description price quantity True w =
       execute_query eng e ?q (Some ?ps) ?w" for eng
    by (simp add: create_product_def)
  have s: "mysql_connect e w = Inr () \<and> cursor_raises e = None \<and> execute_raises e = None \<and>
       commit_raises e = None \<and> server w = Some d \<and> products d = Some t \<and>
       to_varchar cv (PStr name) = Some n \<and> to_text cv (PStr description) = Some ds \<and>
       to_decimal cv (PFloat price) = Some pr \<and> to_int cv (PInt quantity) = Some q
       \<longrightarrow> fst (create_product (mysql cv other) e name description price quantity True w) =
             Inr True"
    by (auto simp: c execute_query_result cursor_execute_def truthy_def mysql_products_insert
          insert_into_products_def mysql_connect_def split: option.splits)
  have r: "create_product (mysql cv other) e name description price quantity True w = (Inr True, w')
       \<longrightarrow> (\<exists>d0 t0 n0 ds0 pr0 q0.
              server w = Some d0 \<and> products d0 = Some t0 \<and>
              to_varchar cv (PStr name) = Some n0 \<and> to_text cv (PStr description) = Some ds0 \<and>
              to_decimal cv (PFloat price) = Some pr0 \<and> to_int cv (PInt quantity) = Some q0 \<and>
              server w' = Some (d0\<lparr>products := Some
                 (t0\<lparr>rows := rows t0 @
                        [\<lparr>g_id = next_id t0, g_name = n0, g_description = ds0, g_price = pr0,
                          g_quantity = q0\<rparr>],
                     next_id := next_id t0 + 1\<rparr>)\<rparr>))"
  proof
    assume "create_product (mysql cv other) e name description price quantity True w = (Inr True, w')"
    then have "execute_query (mysql cv other) e ?q (Some ?ps) ?w = (Inr True, w')"
      by (simp only: c)
    from execute_query_True_server [OF this] obtain d0 d' rs where
      d: "server w = Some d0" "mysql cv other ?q (Some ?ps) d0 = Inr (d', rs)" "server w' = Some d'"
      by auto
    from d(2) have "insert_into_products cv (PStr name) (PStr description) (PFloat price)
        (PInt quantity) d0 = Inr (d', rs)"
      by (simp only: mysql_products_insert)
    then obtain t0 n0 ds0 pr0 q0 where
      "products d0 = Some t0" "to_varchar cv (PStr name) = Some n0"
      "to_text cv (PStr description) = Some ds0" "to_decimal cv (PFloat price) = Some pr0"
      "to_int cv (PInt quantity) = Some q0"
      "d' = d0\<lparr>products := Some
                 (t0\<lparr>rows := rows t0 @
                        [\<lparr>g_id = next_id t0, g_name = n0, g_description = ds0, g_price = pr0,
                          g_quantity = q0\<rparr>],
                     next_id := next_id t0 + 1\<rparr>)\<rparr>"
      by (auto simp: insert_into_products_def split: option.splits)
    with d(1,3) show "\<exists>d0 t0 n0 ds0 pr0 q0.
              server w = Some d0 \<and> products d0 = Some t0 \<and>
              to_varchar cv (PStr name) = Some n0 \<and> to_text cv (PStr description) = Some ds0 \<and>
              to_decimal cv (PFloat price) = Some pr0 \<and> to_int cv (PInt quantity) = Some q0 \<and>
              server w' = Some (d0\<lparr>products := Some
                 (t0\<lparr>rows := rows t0 @
                        [\<lparr>g_id = next_id t0, g_name = n0, g_description = ds0, g_price = pr0,
                          g_quantity = q0\<rparr>],
                     next_id := next_id t0 + 1\<rparr>)\<rparr>)"
      by blast
  qed
  from a b c [of eng] s r show ?thesis by (intro conjI)
qed

theorem create_product_admin_only_witness:
  "fst (create_product (mysql strict unsupported) no_faults ''Mug'' ''Coffee mug'' (25, - 1) 3
          True sample_world) = Inr True
   \<and> map_option products
       (server (snd (create_product (mysql strict unsupported) no_faults ''Mug'' ''Coffee mug''
                       (25, - 1) 3 True sample_world))) =
     Some (Some \<lparr>rows =
        [\<lparr>g_id = 1, g_name = ''Lamp'', g_description = ''Desk lamp'', g_price = 1999, g_quantity = 4\<rparr>,
         \<lparr>g_id = 2, g_name = ''Mug'', g_description = ''Coffee mug'', g_price = 1250, g_quantity = 3\<rparr>],
        next_id = 3\<rparr>)"
proof -
  let ?c = "create_product (mysql strict unsupported) no_faults ''Mug'' ''Coffee mug'' (25, - 1) 3
          True sample_world"
  note inst = create_product_admin_only [where eng = "mysql strict unsupported" and e = no_faults
      and name = "''Mug''" and description = "''Coffee mug''" and price = "(25, - 1)"
      and quantity = 3 and w = sample_world and d = sample_db
      and t = "\<lparr>rows =
        [\<lparr>g_id = 1, g_name = ''Lamp'', g_description = ''Desk lamp'', g_price = 1999, g_quantity = 4\<rparr>],
        next_id = 2\<rparr>"
      and cv = strict and n = "''Mug''" and ds = "''Coffee mug''" and pr = 1250 and q = 3
      and other = unsupported and w' = "snd ?c"]
  have h: "mysql_connect no_faults sample_world = Inr ()" "cursor_raises no_faults = None"
    "execute_raises no_faults = None" "commit_raises no_faults = None"
    "server sample_world = Some sample_db"
    "products sample_db = Some \<lparr>rows =
        [\<lparr>g_id = 1, g_name = ''Lamp'', g_description = ''Desk lamp'', g_price = 1999, g_quantity = 4\<rparr>],
        next_id = 2\<rparr>"
    "to_varchar strict (PStr ''Mug'') = Some ''Mug''"
    "to_text strict (PStr ''Coffee mug'') = Some ''Coffee mug''"
    "to_decimal strict (PFloat (25, - 1)) = Some 1250" "to_int strict (PInt 3) = Some 3"
    by (simp_all add: mysql_connect_def no_faults_def sample_world_def sample_db_def strict_def
          in_range_def)
  from inst h have t: "fst ?c = Inr True" by blast
  then have "?c = (Inr True, snd ?c)" by (simp add: prod_eq_iff)
  with inst obtain d0 t0 n0 ds0 pr0 q0 where
    r: "server sample_world = Some d0" "products d0 = Some t0"
      "to_varchar strict (PStr ''Mug'') = Some n0" "to_text strict (PStr ''Coffee mug'') = Some ds0"
      "to_decimal strict (PFloat (25, - 1)) = Some pr0" "to_int strict (PInt 3) = Some q0"
      "server (snd ?c) = Some (d0\<lparr>products := Some
                 (t0\<lparr>rows := rows t0 @
                        [\<lparr>g_id = next_id t0, g_name = n0, g_description = ds0, g_price = pr0,
                          g_quantity = q0\<rparr>],
                     next_id := next_id t0 + 1\<rparr>)\<rparr>)"
    by blast
  from r h have "map_option products (server (snd ?c)) =
     Some (Some \<lparr>rows =
        [\<lparr>g_id = 1, g_name = ''Lamp'', g_description = ''Desk lamp'', g_price = 1999, g_quantity = 4\<rparr>,
         \<lparr>g_id = 2, g_name = ''Mug'', g_description = ''Coffee mug'', g_price = 1250, g_quantity = 3\<rparr>],
        next_id = 3\<rparr>)"
    by auto
  with t show ?thesis by (intro conjI)
qed

section \<open>Empty parameter tuple\<close>

text \<open>
  C10.  For every statement, \<^verbatim>\<open>execute_query\<close>, \<^verbatim>\<open>fetch_one\<close> and \<^verbatim>\<open>fetch_all\<close> called
  with the empty tuple behave as when called without parameters: the truthiness test
  sends both to \<^verbatim>\<open>cursor.execute(query)\<close>.  \<^verbatim>\<open>fetch_one\<close> and \<^verbatim>\<open>fetch_all\<close> give the
  same result and the same world.  \<^verbatim>\<open>execute_query\<close> gives the same result, the same
  stored data and the same opened and closed resources; the argument shows only in the
  \<^verbatim>\<open>Params\<close> line that is logged before the test, every other log record being the same.
\<close>

theorem empty_params:
  "fetch_one eng e q (Some []) w = fetch_one eng e q None w
   \<and> fetch_all eng e q (Some []) w = fetch_all eng e q None w
   \<and> fst (execute_query eng e q (Some []) w) = fst (execute_query eng e q None w)
   \<and> server (snd (execute_query eng e q (Some []) w)) = server (snd (execute_query eng e q None w))
   \<and> trace (snd (execute_query eng e q (Some []) w)) = trace (snd (execute_query eng e q None w))
   \<and> (\<exists>rest.
        log_records (snd (execute_query eng e q (Some []) w)) =
          log_records w @ [(INFO, ''Executing query: {}'', [AStr q]),
                           (INFO, ''Params: {}'', [AParams (Some [])])] @ rest
      \<and> log_records (snd (execute_query eng e q None w)) =
          log_records w @ [(INFO, ''Executing query: {}'', [AStr q]),
                           (INFO, ''Params: {}'', [AParams None])] @ rest)"
proof -
  have f: "fetch_one eng e q (Some []) w = fetch_one eng e q None w"
          "fetch_all eng e q (Some []) w = fetch_all eng e q None w"
    by (simp_all add: fetch_one_def fetch_all_def cursor_execute_empty
        cong: option.case_cong sum.case_cong prod.case_cong)
  have r: "fst (execute_query eng e q (Some []) w) = fst (execute_query eng e q None w)"
    by (simp add: execute_query_result cursor_execute_empty)
  have s: "server (snd (execute_query eng e q (Some []) w)) =
           server (snd (execute_query eng e q None w))"
    by (simp add: execute_query_server r cursor_execute_empty)
  have t: "trace (snd (execute_query eng e q (Some []) w)) =
           trace (snd (execute_query eng e q None w))"
    by (simp add: execute_query_trace)
  have l: "\<exists>rest.
        log_records (snd (execute_query eng e q (Some []) w)) =
          log_records w @ [(INFO, ''Executing query: {}'', [AStr q]),
                           (INFO, ''Params: {}'', [AParams (Some [])])] @ rest
      \<and> log_records (snd (execute_query eng e q None w)) =
          log_records w @ [(INFO, ''Executing query: {}'', [AStr q]),
                           (INFO, ''Params: {}'', [AParams None])] @ rest"
    by (auto simp: execute_query_def Let_def get_connection_cases finally_close_def
          cursor_execute_empty
        split: option.splits sum.splits prod.splits)
  from f r s t l show ?thesis by blast
qed

section \<open>The boolean result of a mutating statement\<close>

text \<open>The engine on the statements used below.\<close>

lemma mysql_users_by_id:
  "mysql cv other ''SELECT * FROM users WHERE id = %s'' (Some [PInt i]) d =
     select_users (\<lambda>r. u_id r = i) d"
  by (simp add: mysql_def)

lemma mysql_users_all:
  "mysql cv other ''SELECT * FROM users'' None d = select_users (\<lambda>r. True) d"
  by (simp add: mysql_def)

lemma mysql_users_delete:
  "mysql cv other ''DELETE FROM users WHERE id = %s'' (Some [PInt i]) d = delete_from_users i d"
  by (simp add: mysql_def)

lemma mysql_products_by_id:
  "mysql cv other ''SELECT * FROM products WHERE id = %s'' (Some [PInt i]) d =
     select_products (\<lambda>r. g_id r = i) d"
  by (simp add: mysql_def)

lemma mysql_products_all:
  "mysql cv other ''SELECT * FROM products'' None d = select_products (\<lambda>r. True) d"
  by (simp add: mysql_def)

lemma mysql_products_delete:
  "mysql cv other ''DELETE FROM products WHERE id = %s'' (Some [PInt i]) d =
     delete_from_products i d"
  by (simp add: mysql_def)

lemma mysql_empty_set_clause:
  "mysql cv other ''UPDATE users SET  WHERE id = %s'' ps d = Inl syntax_error"
  by (simp add: mysql_def update_users_stmt_def strip_suffix_def)

text \<open>
  C4, as the code has it.  \<^verbatim>\<open>execute_query\<close> returns \<open>True\<close> exactly when the connection
  opens, the cursor is created, the engine accepts the statement and the commit succeeds;
  how many rows the statement touched plays no part, so a statement that affects no row
  and one that affects some are not told apart.  It returns \<open>False\<close> when the connection
  could not be opened and on every engine error: in creating the cursor, in executing and
  in committing.
\<close>

theorem execute_query_boolean:
  "((fst (execute_query eng e q ps w) = Inr True) =
      (connect_raises e = None \<and> cursor_raises e = None \<and> execute_raises e = None \<and>
       commit_raises e = None \<and>
       (\<exists>d d' rs. server w = Some d \<and>
          (if truthy ps then eng q ps d else eng q None d) = Inr (d', rs))))
   \<and> (mysql_connect e w \<noteq> Inr () \<longrightarrow> fst (execute_query eng e q ps w) = Inr False)
   \<and> ((cursor_raises e = None \<or> \<not> is_connected e) \<and> mysql_connect e w = Inr () \<and>
        (cursor_raises e \<noteq> None \<or> commit_raises e \<noteq> None \<or>
         (\<exists>err. cursor_execute eng e q ps w = Inl err))
        \<longrightarrow> fst (execute_query eng e q ps w) = Inr False)"
proof -
  have a: "(fst (execute_query eng e q ps w) = Inr True) =
      (connect_raises e = None \<and> cursor_raises e = None \<and> execute_raises e = None \<and>
       commit_raises e = None \<and>
       (\<exists>d d' rs. server w = Some d \<and>
          (if truthy ps then eng q ps d else eng q None d) = Inr (d', rs)))"
    by (auto simp: execute_query_result cursor_execute_def
        split: option.splits sum.splits prod.splits)
  have b: "mysql_connect e w \<noteq> Inr () \<longrightarrow> fst (execute_query eng e q ps w) = Inr False"
    by (auto simp: execute_query_result mysql_connect_def split: option.splits)
  have c: "(cursor_raises e = None \<or> \<not> is_connected e) \<and> mysql_connect e w = Inr () \<and>
        (cursor_raises e \<noteq> None \<or> commit_raises e \<noteq> None \<or>
         (\<exists>err. cursor_execute eng e q ps w = Inl err))
        \<longrightarrow> fst (execute_query eng e q ps w) = Inr False"
    by (auto simp: execute_query_result mysql_connect_def split: option.splits sum.splits)
  from a b c show ?thesis by (intro conjI)
qed

theorem execute_query_boolean_witness:
  "mysql_connect connect_fault sample_world \<noteq> Inr ()
   \<and> fst (execute_query (mysql strict unsupported) connect_fault
            ''DELETE FROM users WHERE id = %s'' (Some [PInt 2]) sample_world) = Inr False
   \<and> mysql_connect no_faults sample_world = Inr ()
   \<and> cursor_raises no_faults = None
   \<and> cursor_execute (mysql strict unsupported) no_faults
        ''UPDATE users SET  WHERE id = %s'' (Some [PInt 2]) sample_world = Inl syntax_error
   \<and> fst (execute_query (mysql strict unsupported) no_faults
            ''UPDATE users SET  WHERE id = %s'' (Some [PInt 2]) sample_world) = Inr False
   \<and> mysql_connect cursor_unavailable sample_world = Inr ()
   \<and> is_connected cursor_unavailable = False
   \<and> fst (execute_query (mysql strict unsupported) cursor_unavailable
            ''DELETE FROM users WHERE id = %s'' (Some [PInt 2]) sample_world) = Inr False"
proof -
  have c: "mysql_connect connect_fault sample_world \<noteq> Inr ()"
    by (simp add: mysql_connect_def connect_fault_def)
  have n: "mysql_connect no_faults sample_world = Inr ()" "cursor_raises no_faults = None"
    by (simp_all add: mysql_connect_def no_faults_def sample_world_def)
  have x: "cursor_execute (mysql strict unsupported) no_faults
        ''UPDATE users SET  WHERE id = %s'' (Some [PInt 2]) sample_world = Inl syntax_error"
    by (simp add: cursor_execute_def truthy_def mysql_empty_set_clause no_faults_def
          sample_world_def)
  have u: "mysql_connect cursor_unavailable sample_world = Inr ()"
    "is_connected cursor_unavailable = False" "cursor_raises cursor_unavailable \<noteq> None"
    by (simp_all add: mysql_connect_def cursor_unavailable_def sample_world_def)
  from c execute_query_boolean [of "mysql strict unsupported" connect_fault
      "''DELETE FROM users WHERE id = %s''" "Some [PInt 2]" sample_world]
  have 1: "fst (execute_query (mysql strict unsupported) connect_fault
            ''DELETE FROM users WHERE id = %s'' (Some [PInt 2]) sample_world) = Inr False"
    by blast
  from n x execute_query_boolean [of "mysql strict unsupported" no_faults
      "''UPDATE users SET  WHERE id = %s''" "Some [PInt 2]" sample_world]
  have 2: "fst (execute_query (mysql strict unsupported) no_faults
            ''UPDATE users SET  WHERE id = %s'' (Some [PInt 2]) sample_world) = Inr False"
    by blast
  from u execute_query_boolean [of "mysql strict unsupported" cursor_unavailable
      "''DELETE FROM users WHERE id = %s''" "Some [PInt 2]" sample_world]
  have 3: "fst (execute_query (mysql strict unsupported) cursor_unavailable
            ''DELETE FROM users WHERE id = %s'' (Some [PInt 2]) sample_world) = Inr False"
    by blast
  from c 1 n x 2 u(1,2) 3 show ?thesis by (intro conjI)
qed

text \<open>
  C4 as stated fails in its last part: the boolean does tell a failed statement from one
  that affected no row.  A DELETE that matches no row returns \<open>True\<close>; the malformed
  UPDATE returns \<open>False\<close>.
\<close>

theorem boolean_separates_failure_from_zero_rows:
  "mysql strict unsupported ''DELETE FROM users WHERE id = %s'' (Some [PInt 99]) sample_db =
     Inr (sample_db, [])
   \<and> fst (execute_query (mysql strict unsupported) no_faults
            ''DELETE FROM users WHERE id = %s'' (Some [PInt 99]) sample_world) = Inr True
   \<and> mysql strict unsupported ''UPDATE users SET  WHERE id = %s'' (Some [PInt 99]) sample_db =
     Inl syntax_error
   \<and> fst (execute_query (mysql strict unsupported) no_faults
            ''UPDATE users SET  WHERE id = %s'' (Some [PInt 99]) sample_world) = Inr False"
  by (simp add: execute_query_result cursor_execute_def truthy_def mysql_empty_set_clause
        mysql_users_delete delete_from_users_def referenced_def
        no_faults_def sample_world_def sample_db_def)

section \<open>Release of connection and cursor\<close>

text \<open>
  C2, as the code has it.  For every statement and parameter tuple, in every run the
  connector can deliver: when the connection cannot be opened, \<^verbatim>\<open>execute_query\<close>,
  \<^verbatim>\<open>fetch_one\<close> and \<^verbatim>\<open>fetch_all\<close> open nothing and close nothing.  When the connection
  was opened and the cursor created, then on every exit path (success, empty result,
  engine error) the cursor and then the connection are closed if
  \<^verbatim>\<open>connection.is_connected()\<close> answers true in the \<^verbatim>\<open>finally\<close> block, and neither is
  closed if it answers false.  When creating the cursor failed, nothing is closed.  No
  call ends in an exception: a cursor that was not created is never released.
\<close>

theorem release_when_connected:
  "(mysql_connect e w \<noteq> Inr () \<longrightarrow>
      trace (snd (execute_query eng e q ps w)) = trace w \<and>
      trace (snd (fetch_one eng e q ps w)) = trace w \<and>
      trace (snd (fetch_all eng e q ps w)) = trace w)
   \<and> (mysql_connect e w = Inr () \<and> cursor_raises e = None \<longrightarrow>
      trace (snd (execute_query eng e q ps w)) =
        trace w @ [ConnOpened, CursorOpened] @ (if is_connected e then [CursorClosed, ConnClosed] else []) \<and>
      trace (snd (fetch_one eng e q ps w)) =
        trace w @ [ConnOpened, CursorOpened] @ (if is_connected e then [CursorClosed, ConnClosed] else []) \<and>
      trace (snd (fetch_all eng e q ps w)) =
        trace w @ [ConnOpened, CursorOpened] @ (if is_connected e then [CursorClosed, ConnClosed] else []))
   \<and> (mysql_connect e w = Inr () \<and> cursor_raises e \<noteq> None \<longrightarrow>
      trace (snd (execute_query eng e q ps w)) = trace w @ [ConnOpened] \<and>
      trace (snd (fetch_one eng e q ps w)) = trace w @ [ConnOpened] \<and>
      trace (snd (fetch_all eng e q ps w)) = trace w @ [ConnOpened])
   \<and> (cursor_raises e = None \<or> \<not> is_connected e \<longrightarrow>
      (\<exists>b. fst (execute_query eng e q ps w) = Inr b) \<and>
      (\<exists>r. fst (fetch_one eng e q ps w) = Inr r) \<and>
      (\<exists>rs. fst (fetch_all eng e q ps w) = Inr rs))"
proof -
  have a: "mysql_connect e w \<noteq> Inr () \<longrightarrow>
      trace (snd (execute_query eng e q ps w)) = trace w \<and>
      trace (snd (fetch_one eng e q ps w)) = trace w \<and>
      trace (snd (fetch_all eng e q ps w)) = trace w"
    by (auto simp: execute_query_trace fetch_one_trace fetch_all_trace mysql_connect_def
        split: option.splits)
  have b: "mysql_connect e w = Inr () \<and> cursor_raises e = None \<longrightarrow>
      trace (snd (execute_query eng e q ps w)) =
        trace w @ [ConnOpened, CursorOpened] @ (if is_connected e then [CursorClosed, ConnClosed] else []) \<and>
      trace (snd (fetch_one eng e q ps w)) =
        trace w @ [ConnOpened, CursorOpened] @ (if is_connected e then [CursorClosed, ConnClosed] else []) \<and>
      trace (snd (fetch_all eng e q ps w)) =
        trace w @ [ConnOpened, CursorOpened] @ (if is_connected e then [CursorClosed, ConnClosed] else [])"
    by (auto simp: execute_query_trace fetch_one_trace fetch_all_trace mysql_connect_def
        split: option.splits)
  have c: "mysql_connect e w = Inr () \<and> cursor_raises e \<noteq> None \<longrightarrow>
      trace (snd (execute_query eng e q ps w)) = trace w @ [ConnOpened] \<and>
      trace (snd (fetch_one eng e q ps w)) = trace w @ [ConnOpened] \<and>
      trace (snd (fetch_all eng e q ps w)) = trace w @ [ConnOpened]"
    by (auto simp: execute_query_trace fetch_one_trace fetch_all_trace mysql_connect_def
        split: option.splits)
  have d: "cursor_raises e = None \<or> \<not> is_connected e \<longrightarrow>
      (\<exists>b. fst (execute_query eng e q ps w) = Inr b) \<and>
      (\<exists>r. fst (fetch_one eng e q ps w) = Inr r) \<and>
      (\<exists>rs. fst (fetch_all eng e q ps w) = Inr rs)"
    by (auto simp: execute_query_result fetch_one_result fetch_all_result
        split: option.splits sum.splits)
  from a b c d show ?thesis by (intro conjI)
qed

theorem release_when_connected_witness:
  "mysql_connect connect_fault sample_world \<noteq> Inr ()
   \<and> trace (snd (fetch_one (mysql strict unsupported) connect_fault
          ''SELECT * FROM users WHERE id = %s'' (Some [PInt 2]) sample_world)) = []
   \<and> mysql_connect no_faults sample_world = Inr () \<and> cursor_raises no_faults = None
   \<and> trace (snd (execute_query (mysql strict unsupported) no_faults
          ''DELETE FROM users WHERE id = %s'' (Some [PInt 2]) sample_world)) =
       [ConnOpened, CursorOpened, CursorClosed, ConnClosed]
   \<and> released (trace (snd (execute_query (mysql strict unsupported) no_faults
          ''DELETE FROM users WHERE id = %s'' (Some [PInt 2]) sample_world)))
   \<and> mysql_connect cursor_unavailable sample_world = Inr ()
   \<and> is_connected cursor_unavailable = False
   \<and> trace (snd (execute_query (mysql strict unsupported) cursor_unavailable
          ''DELETE FROM users WHERE id = %s'' (Some [PInt 2]) sample_world)) = [ConnOpened]
   \<and> (\<exists>b. fst (execute_query (mysql strict unsupported) cursor_unavailable
          ''DELETE FROM users WHERE id = %s'' (Some [PInt 2]) sample_world) = Inr b)"
proof -
  have c: "mysql_connect connect_fault sample_world \<noteq> Inr ()"
    by (simp add: mysql_connect_def connect_fault_def)
  have n: "mysql_connect no_faults sample_world = Inr ()" "cursor_raises no_faults = None"
    "is_connected no_faults"
    by (simp_all add: mysql_connect_def no_faults_def sample_world_def)
  have u: "mysql_connect cursor_unavailable sample_world = Inr ()"
    "is_connected cursor_unavailable = False" "cursor_raises cursor_unavailable \<noteq> None"
    by (simp_all add: mysql_connect_def cursor_unavailable_def sample_world_def)
  have t: "trace sample_world = []" by (simp add: sample_world_def)
  from c t release_when_connected [of connect_fault sample_world "mysql strict unsupported"
      "''SELECT * FROM users WHERE id = %s''" "Some [PInt 2]"]
  have 1: "trace (snd (fetch_one (mysql strict unsupported) connect_fault
          ''SELECT * FROM users WHERE id = %s'' (Some [PInt 2]) sample_world)) = []"
    by simp
  from n t release_when_connected [of no_faults sample_world "mysql strict unsupported"
      "''DELETE FROM users WHERE id = %s''" "Some [PInt 2]"]
  have 2: "trace (snd (execute_query (mysql strict unsupported) no_faults
          ''DELETE FROM users WHERE id = %s'' (Some [PInt 2]) sample_world)) =
       [ConnOpened, CursorOpened, CursorClosed, ConnClosed]"
    by simp
  from 2 have 3: "released (trace (snd (execute_query (mysql strict unsupported) no_faults
          ''DELETE FROM users WHERE id = %s'' (Some [PInt 2]) sample_world)))"
    by (simp add: released_def)
  note r = release_when_connected [of cursor_unavailable sample_world "mysql strict unsupported"
      "''DELETE FROM users WHERE id = %s''" "Some [PInt 2]"]
  from u t r have 4: "trace (snd (execute_query (mysql strict unsupported) cursor_unavailable
          ''DELETE FROM users WHERE id = %s'' (Some [PInt 2]) sample_world)) = [ConnOpened]"
    by simp
  from u r have 5: "\<exists>b. fst (execute_query (mysql strict unsupported) cursor_unavailable
          ''DELETE FROM users WHERE id = %s'' (Some [PInt 2]) sample_world) = Inr b"
    by blast
  from c n(1,2) 1 2 3 u(1,2) 4 5 show ?thesis by (intro conjI)
qed

text \<open>
  C2 as stated fails in its first part.  When the connection is lost while the statement
  executes, the call leaves through the engine-error path, \<^verbatim>\<open>is_connected()\<close> is false in
  the \<^verbatim>\<open>finally\<close> block, and neither the cursor nor the connection is closed.
\<close>

theorem release_skipped:
  "fst (execute_query (mysql strict unsupported) lost_connection
          ''DELETE FROM users WHERE id = %s'' (Some [PInt 2]) sample_world) = Inr False
   \<and> trace (snd (execute_query (mysql strict unsupported) lost_connection
          ''DELETE FROM users WHERE id = %s'' (Some [PInt 2]) sample_world)) =
       [ConnOpened, CursorOpened]
   \<and> \<not> released (trace (snd (execute_query (mysql strict unsupported) lost_connection
          ''DELETE FROM users WHERE id = %s'' (Some [PInt 2]) sample_world)))"
  by (simp add: execute_query_result execute_query_trace cursor_execute_def released_def
        lost_connection_def sample_world_def)

section \<open>Absent and empty results\<close>

text \<open>
  C5.  For every query and parameters, in every run the connector can deliver,
  \<^verbatim>\<open>fetch_one\<close> and \<^verbatim>\<open>fetch_all\<close> return to the caller and never raise.  \<^verbatim>\<open>fetch_one\<close>
  returns \<open>None\<close> when the connection cannot be opened, when creating the cursor,
  executing or fetching raises \<^verbatim>\<open>Error\<close>, and when no row matches; \<^verbatim>\<open>fetch_all\<close> returns
  the empty list in the same cases.  So the result does not tell an error from an empty
  result.  When rows match and nothing fails, \<^verbatim>\<open>fetch_one\<close> returns the first of them and
  \<^verbatim>\<open>fetch_all\<close> returns them all.
\<close>

theorem fetch_absent_on_error_or_empty:
  "cursor_raises e = None \<or> \<not> is_connected e \<longrightarrow>
     (\<exists>r. fst (fetch_one eng e q ps w) = Inr r) \<and>
     (\<exists>rs. fst (fetch_all eng e q ps w) = Inr rs) \<and>
     (mysql_connect e w \<noteq> Inr () \<or> cursor_raises e \<noteq> None \<or>
      (\<exists>err. cursor_execute eng e q ps w = Inl err) \<or> fetch_raises e \<noteq> None \<or>
      (\<exists>d. cursor_execute eng e q ps w = Inr (d, []))
      \<longrightarrow> fst (fetch_one eng e q ps w) = Inr None \<and> fst (fetch_all eng e q ps w) = Inr []) \<and>
     (mysql_connect e w = Inr () \<and> cursor_raises e = None \<and> fetch_raises e = None \<and>
      cursor_execute eng e q ps w = Inr (d1, r1 # rest)
      \<longrightarrow> fst (fetch_one eng e q ps w) = Inr (Some r1) \<and>
          fst (fetch_all eng e q ps w) = Inr (r1 # rest))"
proof
  assume h: "cursor_raises e = None \<or> \<not> is_connected e"
  then have a: "(\<exists>r. fst (fetch_one eng e q ps w) = Inr r) \<and>
     (\<exists>rs. fst (fetch_all eng e q ps w) = Inr rs)"
    by (auto simp: fetch_one_result fetch_all_result split: option.splits sum.splits)
  from h have b: "mysql_connect e w \<noteq> Inr () \<or> cursor_raises e \<noteq> None \<or>
      (\<exists>err. cursor_execute eng e q ps w = Inl err) \<or> fetch_raises e \<noteq> None \<or>
      (\<exists>d. cursor_execute eng e q ps w = Inr (d, []))
      \<longrightarrow> fst (fetch_one eng e q ps w) = Inr None \<and> fst (fetch_all eng e q ps w) = Inr []"
    by (auto simp: fetch_one_result fetch_all_result mysql_connect_def fetchone_def fetchall_def
        split: option.splits sum.splits prod.splits list.splits)
  have c: "mysql_connect e w = Inr () \<and> cursor_raises e = None \<and> fetch_raises e = None \<and>
      cursor_execute eng e q ps w = Inr (d1, r1 # rest)
      \<longrightarrow> fst (fetch_one eng e q ps w) = Inr (Some r1) \<and>
          fst (fetch_all eng e q ps w) = Inr (r1 # rest)"
    by (auto simp: fetch_one_result fetch_all_result mysql_connect_def fetchone_def fetchall_def
        split: option.splits)
  from a b c show "(\<exists>r. fst (fetch_one eng e q ps w) = Inr r) \<and>
     (\<exists>rs. fst (fetch_all eng e q ps w) = Inr rs) \<and>
     (mysql_connect e w \<noteq> Inr () \<or> cursor_raises e \<noteq> None \<or>
      (\<exists>err. cursor_execute eng e q ps w = Inl err) \<or> fetch_raises e \<noteq> None \<or>
      (\<exists>d. cursor_execute eng e q ps w = Inr (d, []))
      \<longrightarrow> fst (fetch_one eng e q ps w) = Inr None \<and> fst (fetch_all eng e q ps w) = Inr []) \<and>
     (mysql_connect e w = Inr () \<and> cursor_raises e = None \<and> fetch_raises e = None \<and>
      cursor_execute eng e q ps w = Inr (d1, r1 # rest)
      \<longrightarrow> fst (fetch_one eng e q ps w) = Inr (Some r1) \<and>
          fst (fetch_all eng e q ps w) = Inr (r1 # rest))"
    by (intro conjI) blast+
qed

lemma sample_no_row:
  "cursor_execute (mysql strict unsupported) no_faults
     ''SELECT * FROM users WHERE id = %s'' (Some [PInt 99]) sample_world = Inr (sample_db, [])"
  by (simp add: cursor_execute_def truthy_def mysql_users_by_id select_users_def
        no_faults_def sample_world_def sample_db_def)

lemma sample_one_row:
  "cursor_execute (mysql strict unsupported) no_faults
     ''SELECT * FROM users WHERE id = %s'' (Some [PInt 2]) sample_world =
   Inr (sample_db,
        [[(''id'', PInt 2), (''name'', PStr ''Ben''), (''email'', PStr ''ben@example.com''),
          (''password'', PStr ''secret-2'')]])"
  by (simp add: cursor_execute_def truthy_def mysql_users_by_id select_users_def user_dict_def
        no_faults_def sample_world_def sample_db_def)

theorem fetch_absent_on_error_or_empty_witness:
  "(cursor_raises no_faults = None \<or> \<not> is_connected no_faults)
   \<and> cursor_execute (mysql strict unsupported) no_faults
        ''SELECT * FROM users WHERE id = %s'' (Some [PInt 99]) sample_world = Inr (sample_db, [])
   \<and> fst (fetch_one (mysql strict unsupported) no_faults
            ''SELECT * FROM users WHERE id = %s'' (Some [PInt 99]) sample_world) = Inr None
   \<and> fst (fetch_all (mysql strict unsupported) no_faults
            ''SELECT * FROM users WHERE id = %s'' (Some [PInt 99]) sample_world) = Inr []
   \<and> fst (fetch_one (mysql strict unsupported) no_faults
            ''SELECT * FROM users WHERE id = %s'' (Some [PInt 2]) sample_world) =
       Inr (Some [(''id'', PInt 2), (''name'', PStr ''Ben''), (''email'', PStr ''ben@example.com''),
                  (''password'', PStr ''secret-2'')])
   \<and> fst (fetch_all (mysql strict unsupported) no_faults
            ''SELECT * FROM users WHERE id = %s'' (Some [PInt 2]) sample_world) =
       Inr [[(''id'', PInt 2), (''name'', PStr ''Ben''), (''email'', PStr ''ben@example.com''),
             (''password'', PStr ''secret-2'')]]
   \<and> (cursor_raises lost_connection = None \<or> \<not> is_connected lost_connection)
   \<and> cursor_execute (mysql strict unsupported) lost_connection
        ''SELECT * FROM users WHERE id = %s'' (Some [PInt 2]) sample_world =
       Inl (OperationalError ''2013 Lost connection to MySQL server during query'')
   \<and> fst (fetch_one (mysql strict unsupported) lost_connection
            ''SELECT * FROM users WHERE id = %s'' (Some [PInt 2]) sample_world) = Inr None
   \<and> fst (fetch_all (mysql strict unsupported) lost_connection
            ''SELECT * FROM users WHERE id = %s'' (Some [PInt 2]) sample_world) = Inr []
   \<and> (cursor_raises connect_fault = None \<or> \<not> is_connected connect_fault)
   \<and> mysql_connect connect_fault sample_world \<noteq> Inr ()
   \<and> fst (fetch_one (mysql strict unsupported) connect_fault
            ''SELECT * FROM users WHERE id = %s'' (Some [PInt 2]) sample_world) = Inr None
   \<and> fst (fetch_all (mysql strict unsupported) connect_fault
            ''SELECT * FROM users WHERE id = %s'' (Some [PInt 2]) sample_world) = Inr []
   \<and> (cursor_raises cursor_unavailable = None \<or> \<not> is_connected cursor_unavailable)
   \<and> cursor_raises cursor_unavailable \<noteq> None
   \<and> fst (fetch_one (mysql strict unsupported) cursor_unavailable
            ''SELECT * FROM users WHERE id = %s'' (Some [PInt 2]) sample_world) = Inr None
   \<and> fst (fetch_all (mysql strict unsupported) cursor_unavailable
            ''SELECT * FROM users WHERE id = %s'' (Some [PInt 2]) sample_world) = Inr []"
proof -
  have n: "cursor_raises no_faults = None \<or> \<not> is_connected no_faults"
    by (simp add: no_faults_def)
  have n': "mysql_connect no_faults sample_world = Inr ()" "cursor_raises no_faults = None"
    "fetch_raises no_faults = None"
    by (simp_all add: mysql_connect_def no_faults_def sample_world_def)
  have l: "cursor_raises lost_connection = None \<or> \<not> is_connected lost_connection"
    "cursor_execute (mysql strict unsupported) lost_connection
        ''SELECT * FROM users WHERE id = %s'' (Some [PInt 2]) sample_world =
       Inl (OperationalError ''2013 Lost connection to MySQL server during query'')"
    by (simp_all add: lost_connection_def cursor_execute_def)
  have c: "cursor_raises connect_fault = None \<or> \<not> is_connected connect_fault"
    "mysql_connect connect_fault sample_world \<noteq> Inr ()"
    by (simp_all add: connect_fault_def mysql_connect_def)
  have u: "cursor_raises cursor_unavailable = None \<or> \<not> is_connected cursor_unavailable"
    "cursor_raises cursor_unavailable \<noteq> None"
    by (simp_all add: cursor_unavailable_def)
  from n sample_no_row fetch_absent_on_error_or_empty [of no_faults "mysql strict unsupported"
      "''SELECT * FROM users WHERE id = %s''" "Some [PInt 99]" sample_world]
  have 1: "fst (fetch_one (mysql strict unsupported) no_faults
            ''SELECT * FROM users WHERE id = %s'' (Some [PInt 99]) sample_world) = Inr None"
    "fst (fetch_all (mysql strict unsupported) no_faults
            ''SELECT * FROM users WHERE id = %s'' (Some [PInt 99]) sample_world) = Inr []"
    by blast+
  from n n' sample_one_row fetch_absent_on_error_or_empty [of no_faults "mysql strict unsupported"
      "''SELECT * FROM users WHERE id = %s''" "Some [PInt 2]" sample_world sample_db
      "[(''id'', PInt 2), (''name'', PStr ''Ben''), (''email'', PStr ''ben@example.com''),
        (''password'', PStr ''secret-2'')]" "[]"]
  have 2: "fst (fetch_one (mysql strict unsupported) no_faults
            ''SELECT * FROM users WHERE id = %s'' (Some [PInt 2]) sample_world) =
       Inr (Some [(''id'', PInt 2), (''name'', PStr ''Ben''), (''email'', PStr ''ben@example.com''),
                  (''password'', PStr ''secret-2'')])"
    "fst (fetch_all (mysql strict unsupported) no_faults
            ''SELECT * FROM users WHERE id = %s'' (Some [PInt 2]) sample_world) =
       Inr [[(''id'', PInt 2), (''name'', PStr ''Ben''), (''email'', PStr ''ben@example.com''),
             (''password'', PStr ''secret-2'')]]"
    by blast+
  from l fetch_absent_on_error_or_empty [of lost_connection "mysql strict unsupported"
      "''SELECT * FROM users WHERE id = %s''" "Some [PInt 2]" sample_world]
  have 3: "fst (fetch_one (mysql strict unsupported) lost_connection
            ''SELECT * FROM users WHERE id = %s'' (Some [PInt 2]) sample_world) = Inr None"
    "fst (fetch_all (mysql strict unsupported) lost_connection
            ''SELECT * FROM users WHERE id = %s'' (Some [PInt 2]) sample_world) = Inr []"
    by blast+
  from c fetch_absent_on_error_or_empty [of connect_fault "mysql strict unsupported"
      "''SELECT * FROM users WHERE id = %s''" "Some [PInt 2]" sample_world]
  have 4: "fst (fetch_one (mysql strict unsupported) connect_fault
            ''SELECT * FROM users WHERE id = %s'' (Some [PInt 2]) sample_world) = Inr None"
    "fst (fetch_all (mysql strict unsupported) connect_fault
            ''SELECT * FROM users WHERE id = %s'' (Some [PInt 2]) sample_world) = Inr []"
    by blast+
  from u fetch_absent_on_error_or_empty [of cursor_unavailable "mysql strict unsupported"
      "''SELECT * FROM users WHERE id = %s''" "Some [PInt 2]" sample_world]
  have 5: "fst (fetch_one (mysql strict unsupported) cursor_unavailable
            ''SELECT * FROM users WHERE id = %s'' (Some [PInt 2]) sample_world) = Inr None"
    "fst (fetch_all (mysql strict unsupported) cursor_unavailable
            ''SELECT * FROM users WHERE id = %s'' (Some [PInt 2]) sample_world) = Inr []"
    by blast+
  from n sample_no_row 1 2 l 3 c 4 u 5 show ?thesis by (intro conjI)
qed

section \<open>Delete, then read\<close>

lemma deleted_user_gone:
  assumes "delete_user (mysql cv other) e1 i w = (Inr True, w1)"
  shows "\<exists>d t. server w1 = Some d \<and> users d = Some t \<and> list_all (\<lambda>r. u_id r \<noteq> i) (rows t)"
proof -
  from assms obtain d d' rs where "server (logging INFO ''Deleting user: {}'' [AInt i] w) = Some d"
      "mysql cv other ''DELETE FROM users WHERE id = %s'' (Some [PInt i]) d = Inr (d', rs)"
      "server w1 = Some d'"
    unfolding delete_user_def by (blast dest: execute_query_True_server)
  then show ?thesis
    by (auto simp: mysql_users_delete delete_from_users_def list_all_iff
        split: option.splits if_splits)
qed

lemma deleted_product_gone:
  assumes "delete_product (mysql cv other) e1 i w = (Inr True, w1)"
  shows "\<exists>d t. server w1 = Some d \<and> products d = Some t \<and> list_all (\<lambda>r. g_id r \<noteq> i) (rows t)"
proof -
  from assms obtain d d' rs where
      "server (logging INFO ''Deleting product: {}'' [AInt i] w) = Some d"
      "mysql cv other ''DELETE FROM products WHERE id = %s'' (Some [PInt i]) d = Inr (d', rs)"
      "server w1 = Some d'"
    unfolding delete_product_def by (blast dest: execute_query_True_server)
  then show ?thesis
    by (auto simp: mysql_products_delete delete_from_products_def list_all_iff
        split: option.splits if_splits)
qed

lemma user_absent_reads:
  assumes "server w = Some d" "users d = Some t" "list_all (\<lambda>r. u_id r \<noteq> i) (rows t)"
  shows "cursor_raises e = None \<or> \<not> is_connected e
           \<Longrightarrow> fst (get_user_by_id (mysql cv other) e i w) = Inr None"
    and "cursor_raises e = None \<or> \<not> is_connected e
           \<Longrightarrow> \<exists>rs. fst (get_all_users (mysql cv other) e w) = Inr rs \<and>
                  list_all (\<lambda>r. map_of r ''id'' \<noteq> Some (PInt i)) rs"
proof -
  from assms(3) have none: "filter (\<lambda>r. u_id r = i) (rows t) = []"
    by (induction "rows t" arbitrary: t) (auto simp: list_all_iff filter_empty_conv)
  assume env: "cursor_raises e = None \<or> \<not> is_connected e"
  show "fst (get_user_by_id (mysql cv other) e i w) = Inr None"
    using env assms(1,2) none
    by (auto simp: get_user_by_id_def fetch_one_result cursor_execute_def truthy_def
          mysql_users_by_id select_users_def fetchone_def
        split: option.splits sum.splits)
  have ids: "list_all (\<lambda>r. map_of r ''id'' \<noteq> Some (PInt i)) (map user_dict (rows t))"
    using assms(3) by (simp add: list_all_iff user_dict_def)
  show "\<exists>rs. fst (get_all_users (mysql cv other) e w) = Inr rs \<and>
           list_all (\<lambda>r. map_of r ''id'' \<noteq> Some (PInt i)) rs"
    using env assms(1,2) ids
    by (auto simp: get_all_users_def fetch_all_result cursor_execute_def truthy_def
          mysql_users_all select_users_def fetchall_def
        split: option.splits sum.splits)
qed

lemma product_absent_reads:
  assumes "server w = Some d" "products d = Some t" "list_all (\<lambda>r. g_id r \<noteq> i) (rows t)"
  shows "cursor_raises e = None \<or> \<not> is_connected e
           \<Longrightarrow> fst (get_product (mysql cv other) e i w) = Inr None"
    and "cursor_raises e = None \<or> \<not> is_connected e
           \<Longrightarrow> \<exists>rs. fst (get_all_products (mysql cv other) e w) = Inr rs \<and>
                  list_all (\<lambda>r. map_of r ''id'' \<noteq> Some (PInt i)) rs"
proof -
  from assms(3) have none: "filter (\<lambda>r. g_id r = i) (rows t) = []"
    by (auto simp: list_all_iff filter_empty_conv)
  assume env: "cursor_raises e = None \<or> \<not> is_connected e"
  show "fst (get_product (mysql cv other) e i w) = Inr None"
    using env assms(1,2) none
    by (auto simp: get_product_def fetch_one_result cursor_execute_def truthy_def
          mysql_products_by_id select_products_def fetchone_def
        split: option.splits sum.splits)
  have ids: "list_all (\<lambda>r. map_of r ''id'' \<noteq> Some (PInt i)) (map product_dict (rows t))"
    using assms(3) by (simp add: list_all_iff product_dict_def)
  show "\<exists>rs. fst (get_all_products (mysql cv other) e w) = Inr rs \<and>
           list_all (\<lambda>r. map_of r ''id'' \<noteq> Some (PInt i)) rs"
    using env assms(1,2) ids
    by (auto simp: get_all_products_def fetch_all_result cursor_execute_def truthy_def
          mysql_products_all select_products_def fetchall_def
        split: option.splits sum.splits)
qed

text \<open>
  C8.  For users and for products (\<^verbatim>\<open>PostCRUD\<close> has no delete operation), and for every
  id: after \<^verbatim>\<open>delete\<close> returned \<open>True\<close>, reading that id returns \<open>None\<close> and no row of
  the full listing carries that id, whatever faults the two reads meet.  The reads are
  taken in runs in which their \<^verbatim>\<open>finally\<close> block does not fail on an unbound cursor
  (the cursor was created, or the connection no longer reports connected).
\<close>

theorem delete_then_read:
  assumes "cursor_raises e2 = None \<or> \<not> is_connected e2"
      and "cursor_raises e3 = None \<or> \<not> is_connected e3"
  shows "(delete_user (mysql cv other) e1 i w = (Inr True, w1) \<longrightarrow>
            fst (get_user_by_id (mysql cv other) e2 i w1) = Inr None \<and>
            (\<exists>rs. fst (get_all_users (mysql cv other) e3 w1) = Inr rs \<and>
                  list_all (\<lambda>r. map_of r ''id'' \<noteq> Some (PInt i)) rs))
       \<and> (delete_product (mysql cv other) e1 i w = (Inr True, w1) \<longrightarrow>
            fst (get_product (mysql cv other) e2 i w1) = Inr None \<and>
            (\<exists>rs. fst (get_all_products (mysql cv other) e3 w1) = Inr rs \<and>
                  list_all (\<lambda>r. map_of r ''id'' \<noteq> Some (PInt i)) rs))"
proof (intro conjI impI)
  assume del: "delete_user (mysql cv other) e1 i w = (Inr True, w1)"
  from deleted_user_gone [OF del] obtain d t where
    g: "server w1 = Some d" "users d = Some t" "list_all (\<lambda>r. u_id r \<noteq> i) (rows t)"
    by blast
  show "fst (get_user_by_id (mysql cv other) e2 i w1) = Inr None"
    by (rule user_absent_reads(1) [OF g assms(1)])
  show "\<exists>rs. fst (get_all_users (mysql cv other) e3 w1) = Inr rs \<and>
          list_all (\<lambda>r. map_of r ''id'' \<noteq> Some (PInt i)) rs"
    by (rule user_absent_reads(2) [OF g assms(2)])
next
  assume del: "delete_product (mysql cv other) e1 i w = (Inr True, w1)"
  from deleted_product_gone [OF del] obtain d t where
    g: "server w1 = Some d" "products d = Some t" "list_all (\<lambda>r. g_id r \<noteq> i) (rows t)"
    by blast
  show "fst (get_product (mysql cv other) e2 i w1) = Inr None"
    by (rule product_absent_reads(1) [OF g assms(1)])
  show "\<exists>rs. fst (get_all_products (mysql cv other) e3 w1) = Inr rs \<and>
          list_all (\<lambda>r. map_of r ''id'' \<noteq> Some (PInt i)) rs"
    by (rule product_absent_reads(2) [OF g assms(2)])
qed

lemma sample_delete_user:
  "fst (delete_user (mysql strict unsupported) no_faults 2 sample_world) = Inr True"
  by (simp add: delete_user_def execute_query_result cursor_execute_def truthy_def
        mysql_users_delete delete_from_users_def referenced_def
        no_faults_def sample_world_def sample_db_def)

lemma sample_delete_product:
  "fst (delete_product (mysql strict unsupported) no_faults 1 sample_world) = Inr True"
  by (simp add: delete_product_def execute_query_result cursor_execute_def truthy_def
        mysql_products_delete delete_from_products_def
        no_faults_def sample_world_def sample_db_def)

theorem delete_then_read_witness:
  "fst (delete_user (mysql strict unsupported) no_faults 2 sample_world) = Inr True
   \<and> fst (get_user_by_id (mysql strict unsupported) no_faults 2
            (snd (delete_user (mysql strict unsupported) no_faults 2 sample_world))) = Inr None
   \<and> (\<exists>rs. fst (get_all_users (mysql strict unsupported) no_faults
                  (snd (delete_user (mysql strict unsupported) no_faults 2 sample_world))) = Inr rs
          \<and> list_all (\<lambda>r. map_of r ''id'' \<noteq> Some (PInt 2)) rs)
   \<and> fst (delete_product (mysql strict unsupported) no_faults 1 sample_world) = Inr True
   \<and> fst (get_product (mysql strict unsupported) no_faults 1
            (snd (delete_product (mysql strict unsupported) no_faults 1 sample_world))) = Inr None
   \<and> (\<exists>rs. fst (get_all_products (mysql strict unsupported) no_faults
                  (snd (delete_product (mysql strict unsupported) no_faults 1 sample_world))) = Inr rs
          \<and> list_all (\<lambda>r. map_of r ''id'' \<noteq> Some (PInt 1)) rs)"
proof -
  have e: "cursor_raises no_faults = None \<or> \<not> is_connected no_faults"
    by (simp add: no_faults_def)
  have u: "delete_user (mysql strict unsupported) no_faults 2 sample_world =
      (Inr True, snd (delete_user (mysql strict unsupported) no_faults 2 sample_world))"
    using sample_delete_user by (simp add: prod_eq_iff)
  have p: "delete_product (mysql strict unsupported) no_faults 1 sample_world =
      (Inr True, snd (delete_product (mysql strict unsupported) no_faults 1 sample_world))"
    using sample_delete_product by (simp add: prod_eq_iff)
  from delete_then_read [OF e e, of strict unsupported no_faults 2 sample_world
      "snd (delete_user (mysql strict unsupported) no_faults 2 sample_world)"]
    delete_then_read [OF e e, of strict unsupported no_faults 1 sample_world
      "snd (delete_product (mysql strict unsupported) no_faults 1 sample_world)"]
    u p sample_delete_user sample_delete_product
  show ?thesis by blast
qed

section \<open>Update with an empty field map\<close>

lemma update_user_empty_query:
  "update_user eng e uid [] w =
     execute_query eng e ''UPDATE users SET  WHERE id = %s'' (Some [PInt uid])
       (logging INFO ''Updating user: {}, {}'' [AInt uid, AData []] w)"
  by (simp add: update_user_def set_clause_of_def)

text \<open>
  C9.  For every user id, \<^verbatim>\<open>update_user\<close> with an empty field map sends the statement
  \<^verbatim>\<open>UPDATE users SET  WHERE id = %s\<close>.  The engine rejects that text as a syntax error
  whatever the parameters and the data, so the stored data are unchanged in every run,
  and the call returns \<open>False\<close> (in every run in which the \<^verbatim>\<open>finally\<close> block does not
  fail on an unbound cursor).
\<close>

theorem update_user_empty_map:
  "update_user eng e uid [] w =
     execute_query eng e ''UPDATE users SET  WHERE id = %s'' (Some [PInt uid])
       (logging INFO ''Updating user: {}, {}'' [AInt uid, AData []] w)
   \<and> mysql cv other ''UPDATE users SET  WHERE id = %s'' ps d = Inl syntax_error
   \<and> server (snd (update_user (mysql cv other) e uid [] w)) = server w
   \<and> (cursor_raises e = None \<or> \<not> is_connected e \<longrightarrow>
        fst (update_user (mysql cv other) e uid [] w) = Inr False)"
proof -
  have r: "fst (update_user (mysql cv other) e uid [] w) \<noteq> Inr True"
    by (auto simp: update_user_empty_query execute_query_result cursor_execute_def
          mysql_empty_set_clause split: option.splits)
  have s: "server (snd (update_user (mysql cv other) e uid [] w)) = server w"
    using r by (simp add: update_user_empty_query execute_query_server)
  have f: "cursor_raises e = None \<or> \<not> is_connected e \<longrightarrow>
        fst (update_user (mysql cv other) e uid [] w) = Inr False"
    by (auto simp: update_user_empty_query execute_query_result cursor_execute_def
          mysql_empty_set_clause split: option.splits)
  from s f show ?thesis
    by (simp add: update_user_empty_query mysql_empty_set_clause)
qed

theorem update_user_empty_map_witness:
  "(cursor_raises no_faults = None \<or> \<not> is_connected no_faults)
   \<and> fst (update_user (mysql strict unsupported) no_faults 1 [] sample_world) = Inr False
   \<and> server (snd (update_user (mysql strict unsupported) no_faults 1 [] sample_world)) =
       Some sample_db"
proof -
  note t = update_user_empty_map [of "mysql strict unsupported" no_faults 1 sample_world
      strict unsupported None sample_db]
  have e: "cursor_raises no_faults = None \<or> \<not> is_connected no_faults"
    by (simp add: no_faults_def)
  from t e have f: "fst (update_user (mysql strict unsupported) no_faults 1 [] sample_world) =
      Inr False"
    by blast
  from t have "server (snd (update_user (mysql strict unsupported) no_faults 1 [] sample_world)) =
      server sample_world"
    by blast
  then have s: "server (snd (update_user (mysql strict unsupported) no_faults 1 [] sample_world)) =
      Some sample_db"
    by (simp add: sample_world_def)
  from e f s show ?thesis by blast
qed

section \<open>Dynamic update builder\<close>

text \<open>Reading back the statement text that \<^verbatim>\<open>update_user\<close> builds.\<close>

lemma strip_prefix_append: "strip_prefix p (p @ s) = Some s"
  by (induction p) simp_all

lemma strip_suffix_append: "strip_suffix suf (s @ suf) = Some s"
  by (simp add: strip_suffix_def strip_prefix_append)

lemma split_comma_plain:
  "CHR '','' \<notin> set s \<Longrightarrow> split_comma acc s = [rev acc @ s]"
  by (induction s arbitrary: acc) auto

lemma split_comma_item:
  "CHR '','' \<notin> set s \<Longrightarrow>
     split_comma acc (s @ '', '' @ rest) = (rev acc @ s) # split_comma [] rest"
  by (induction s arbitrary: acc) auto

lemma split_comma_join:
  "xs \<noteq> [] \<Longrightarrow> \<forall>x\<in>set xs. CHR '','' \<notin> set x \<Longrightarrow> split_comma [] (join '', '' xs) = xs"
proof (induction "'', ''" xs rule: join.induct)
  case 1
  then show ?case by simp
next
  case (2 x)
  then show ?case by (simp add: split_comma_plain)
next
  case (3 x y ys)
  then show ?case using split_comma_item [of x "[]" "join '', '' (y # ys)"] by simp
qed

lemma join_nonempty: "xs \<noteq> [] \<Longrightarrow> \<forall>x\<in>set xs. x \<noteq> [] \<Longrightarrow> join sep xs \<noteq> []"
  by (induction sep xs rule: join.induct) simp_all

lemma those_strip_assignments:
  "those (map (strip_suffix '' = %s'') (map (\<lambda>key. key @ '' = %s'') ks)) = Some ks"
  by (induction ks) (simp_all add: strip_suffix_append)

lemma column_no_comma: "c \<in> set users_columns \<Longrightarrow> CHR '','' \<notin> set c"
  by (auto simp: users_columns_def)

lemma update_users_stmt_columns:
  assumes "data \<noteq> []" "list_all (\<lambda>c. c \<in> set users_columns) (map fst data)"
    "distinct (map fst data)"
  shows "update_users_stmt cv (''UPDATE users SET '' @ set_clause_of data @ '' WHERE id = %s'')
           (Some (map snd data @ [PInt uid])) d = Some (update_users cv data uid d)"
proof -
  let ?as = "map (\<lambda>key. key @ '' = %s'') (map fst data)"
  have ne: "?as \<noteq> []" using assms(1) by simp
  have nc: "\<forall>x\<in>set ?as. CHR '','' \<notin> set x"
    using assms(2) by (auto simp: list_all_iff dest: column_no_comma)
  have sp: "split_comma [] (set_clause_of data) = ?as"
    unfolding set_clause_of_def by (rule split_comma_join [OF ne nc])
  have cl: "set_clause_of data \<noteq> []"
    unfolding set_clause_of_def by (rule join_nonempty [OF ne]) simp
  have p: "strip_prefix ''UPDATE users SET ''
             (''UPDATE users SET '' @ set_clause_of data @ '' WHERE id = %s'') =
           Some (set_clause_of data @ '' WHERE id = %s'')"
    by (rule strip_prefix_append)
  have z: "zip (map fst data) (map snd data) = data" by (simp add: zip_map_fst_snd)
  have q: "strip_suffix '' WHERE id = %s'' (set_clause_of data @ '' WHERE id = %s'') =
           Some (set_clause_of data)"
    by (rule strip_suffix_append)
  show ?thesis
    unfolding update_users_stmt_def p q option.case sp those_strip_assignments
    using cl assms(2,3) by (simp add: z)
qed

lemma mysql_update_users:
  assumes "data \<noteq> []" "list_all (\<lambda>c. c \<in> set users_columns) (map fst data)"
    "distinct (map fst data)"
  shows "mysql cv other (''UPDATE users SET '' @ set_clause_of data @ '' WHERE id = %s'')
           (Some (map snd data @ [PInt uid])) d = update_users cv data uid d"
proof -
  let ?q = "''UPDATE users SET '' @ set_clause_of data @ '' WHERE id = %s''"
  have ne: "?q \<noteq> ''SELECT * FROM users WHERE id = %s''" "?q \<noteq> ''SELECT * FROM users''"
    "?q \<noteq> ''DELETE FROM users WHERE id = %s''"
    "?q \<noteq> ''SELECT * FROM products WHERE id = %s''" "?q \<noteq> ''SELECT * FROM products''"
    "?q \<noteq> ''DELETE FROM products WHERE id = %s''"
    "?q \<noteq> ''INSERT INTO products (name, description, price, quantity) VALUES (%s, %s, %s, %s)''"
    by simp_all
  show ?thesis
    unfolding mysql_def
    by (simp only: ne if_False update_users_stmt_columns [OF assms] option.case)
qed

lemma update_rows_rel:
  "update_rows cv as uid rs = Some rs' \<Longrightarrow>
     list_all2 (\<lambda>r r'. (u_id r = uid \<longrightarrow> assign_all cv as r = Some r') \<and>
                        (u_id r \<noteq> uid \<longrightarrow> r' = r)) rs rs'"
  by (induction rs arbitrary: rs') (auto split: option.splits if_splits)

lemma cell_simps:
  "cell c r =
     (if c = ''id'' then Some (PInt (u_id r))
      else if c = ''name'' then Some (PStr (u_name r))
      else if c = ''email'' then Some (PStr (u_email r))
      else if c = ''password'' then Some (PStr (u_password r))
      else None)"
  by (simp add: cell_def user_dict_def)

lemma assign_column_cell:
  assumes "assign_column cv c v r = Some r'"
  shows "cell c r' = stored cv c v" and "c' \<noteq> c \<Longrightarrow> cell c' r' = cell c' r"
proof -
  from assms consider
      (id) n where "c = ''id''" "to_int cv v = Some n" "r' = r\<lparr>u_id := n\<rparr>"
    | (name) s where "c = ''name''" "to_varchar cv v = Some s" "r' = r\<lparr>u_name := s\<rparr>"
    | (email) s where "c = ''email''" "to_varchar cv v = Some s" "r' = r\<lparr>u_email := s\<rparr>"
    | (password) s where "c = ''password''" "to_varchar cv v = Some s"
        "r' = r\<lparr>u_password := s\<rparr>"
    unfolding assign_column_def by (auto split: if_splits)
  then have "cell c r' = stored cv c v \<and> (c' \<noteq> c \<longrightarrow> cell c' r' = cell c' r)"
  proof cases
    case id
    then show ?thesis by (simp add: cell_simps stored_def)
  next
    case name
    then show ?thesis by (simp add: cell_simps stored_def)
  next
    case email
    then show ?thesis by (simp add: cell_simps stored_def)
  next
    case password
    then show ?thesis by (simp add: cell_simps stored_def)
  qed
  then show "cell c r' = stored cv c v" and "c' \<noteq> c \<Longrightarrow> cell c' r' = cell c' r"
    by simp_all
qed

lemma assign_all_cells:
  "distinct (map fst as) \<Longrightarrow> assign_all cv as r = Some r' \<Longrightarrow>
     (\<forall>c. c \<notin> fst ` set as \<longrightarrow> cell c r' = cell c r) \<and>
     (\<forall>c v. (c, v) \<in> set as \<longrightarrow> cell c r' = stored cv c v)"
proof (induction as arbitrary: r)
  case Nil
  then show ?case by simp
next
  case (Cons a as)
  obtain k u where a: "a = (k, u)" by (cases a)
  from Cons.prems(2) a obtain r1 where
    r1: "assign_column cv k u r = Some r1" "assign_all cv as r1 = Some r'"
    by (auto split: option.splits)
  from Cons.prems(1) a have d: "distinct (map fst as)" "k \<notin> fst ` set as" by auto
  note ih = Cons.IH [OF d(1) r1(2)]
  show ?case
  proof (intro conjI allI impI)
    fix c
    assume "c \<notin> fst ` set (a # as)"
    with a have c: "c \<noteq> k" "c \<notin> fst ` set as" by auto
    from ih c(2) have "cell c r' = cell c r1" by blast
    also from assign_column_cell(2) [OF r1(1) c(1)] have "cell c r1 = cell c r" .
    finally show "cell c r' = cell c r" .
  next
    fix c v
    assume "(c, v) \<in> set (a # as)"
    with a consider "c = k \<and> v = u" | "(c, v) \<in> set as" by auto
    then show "cell c r' = stored cv c v"
    proof cases
      case 1
      from ih d(2) have "cell k r' = cell k r1" by blast
      also from assign_column_cell(1) [OF r1(1)] have "cell k r1 = stored cv k u" .
      finally show ?thesis using 1 by simp
    next
      case 2
      with ih show ?thesis by blast
    qed
  qed
qed

lemma execute_query_True_nonempty:
  assumes "execute_query eng e q (Some ps) w = (Inr True, w1)" "ps \<noteq> []"
  shows "\<exists>d d' rs. server w = Some d \<and> eng q (Some ps) d = Inr (d', rs) \<and> server w1 = Some d'"
proof -
  from assms(2) obtain p ps' where "ps = p # ps'" by (cases ps) auto
  with assms(1) execute_query_True_server [of eng e q p ps' w w1] show ?thesis by simp
qed

text \<open>
  C6, as the code has it.  For every user id and field map, \<^verbatim>\<open>update_user\<close> sends
  \<^verbatim>\<open>UPDATE users SET k1 = %s, ..., kn = %s WHERE id = %s\<close> with one assignment per key in
  map order, the keys inserted as they are, and binds the map's values followed by the id.
  When the map is not empty, its keys are columns of the users table, and the call
  returned \<open>True\<close>: every row with another id is as before; in a row with that id every
  column that is not a key is as before and every key's column holds the value supplied
  for it, as the engine stores it; posts and products are as before.
\<close>

theorem update_user_changes_supplied_columns:
  "update_user eng e uid data w =
     execute_query eng e
       (''UPDATE users SET '' @ join '', '' (map (\<lambda>key. key @ '' = %s'') (map fst data)) @
        '' WHERE id = %s'')
       (Some (map snd data @ [PInt uid]))
       (logging INFO ''Updating user: {}, {}'' [AInt uid, AData data] w)
   \<and> (data \<noteq> [] \<and> distinct (map fst data) \<and>
      list_all (\<lambda>c. c \<in> set users_columns) (map fst data) \<and>
      update_user (mysql cv other) e uid data w = (Inr True, w1)
      \<longrightarrow> (\<exists>d t d1 t1.
             server w = Some d \<and> users d = Some t \<and>
             server w1 = Some d1 \<and> users d1 = Some t1 \<and>
             posts d1 = posts d \<and> products d1 = products d \<and> next_id t1 = next_id t \<and>
             list_all2
               (\<lambda>r r1. (u_id r \<noteq> uid \<longrightarrow> r1 = r) \<and>
                        (u_id r = uid \<longrightarrow>
                           (\<forall>c. c \<notin> fst ` set data \<longrightarrow> cell c r1 = cell c r) \<and>
                           (\<forall>c v. (c, v) \<in> set data \<longrightarrow> cell c r1 = stored cv c v)))
               (rows t) (rows t1)))"
proof (intro conjI impI)
  show "update_user eng e uid data w =
     execute_query eng e
       (''UPDATE users SET '' @ join '', '' (map (\<lambda>key. key @ '' = %s'') (map fst data)) @
        '' WHERE id = %s'')
       (Some (map snd data @ [PInt uid]))
       (logging INFO ''Updating user: {}, {}'' [AInt uid, AData data] w)"
    by (simp add: update_user_def set_clause_of_def Let_def)
next
  assume h: "data \<noteq> [] \<and> distinct (map fst data) \<and>
      list_all (\<lambda>c. c \<in> set users_columns) (map fst data) \<and>
      update_user (mysql cv other) e uid data w = (Inr True, w1)"
  then have ne: "data \<noteq> []" and dist: "distinct (map fst data)"
    and cols: "list_all (\<lambda>c. c \<in> set users_columns) (map fst data)"
    and upd: "update_user (mysql cv other) e uid data w = (Inr True, w1)"
    by simp_all
  let ?q = "''UPDATE users SET '' @ set_clause_of data @ '' WHERE id = %s''"
  from upd have ex: "execute_query (mysql cv other) e ?q (Some (map snd data @ [PInt uid]))
      (logging INFO ''Updating user: {}, {}'' [AInt uid, AData data] w) = (Inr True, w1)"
    by (simp add: update_user_def Let_def)
  from execute_query_True_nonempty [OF ex] obtain d d' rs where
    d: "server w = Some d"
      "mysql cv other ?q (Some (map snd data @ [PInt uid])) d = Inr (d', rs)"
      "server w1 = Some d'"
    by auto
  from d(2) have u: "update_users cv data uid d = Inr (d', rs)"
    by (simp only: mysql_update_users [OF ne cols dist])
  then obtain t rs' where t: "users d = Some t" "update_rows cv data uid (rows t) = Some rs'"
      "d' = d\<lparr>users := Some (t\<lparr>rows := rs'\<rparr>)\<rparr>"
    by (auto simp: update_users_def split: option.splits if_splits)
  have rel: "list_all2
      (\<lambda>r r1. (u_id r \<noteq> uid \<longrightarrow> r1 = r) \<and>
               (u_id r = uid \<longrightarrow>
                  (\<forall>c. c \<notin> fst ` set data \<longrightarrow> cell c r1 = cell c r) \<and>
                  (\<forall>c v. (c, v) \<in> set data \<longrightarrow> cell c r1 = stored cv c v)))
      (rows t) rs'"
    by (rule list_all2_mono [OF update_rows_rel [OF t(2)]])
      (use assign_all_cells [OF dist] in blast)
  from d(1,3) t rel show "\<exists>d t d1 t1.
             server w = Some d \<and> users d = Some t \<and>
             server w1 = Some d1 \<and> users d1 = Some t1 \<and>
             posts d1 = posts d \<and> products d1 = products d \<and> next_id t1 = next_id t \<and>
             list_all2
               (\<lambda>r r1. (u_id r \<noteq> uid \<longrightarrow> r1 = r) \<and>
                        (u_id r = uid \<longrightarrow>
                           (\<forall>c. c \<notin> fst ` set data \<longrightarrow> cell c r1 = cell c r) \<and>
                           (\<forall>c v. (c, v) \<in> set data \<longrightarrow> cell c r1 = stored cv c v)))
               (rows t) (rows t1)"
    by simp
qed

lemma sample_update_user:
  "fst (update_user (mysql strict unsupported) no_faults 2
          [(''name'', PStr ''Benjamin''), (''password'', PStr ''new-secret'')] sample_world) =
     Inr True"
proof -
  let ?data = "[(''name'', PStr ''Benjamin''), (''password'', PStr ''new-secret'')]"
  have m: "mysql strict unsupported
             (''UPDATE users SET '' @ set_clause_of ?data @ '' WHERE id = %s'')
             (Some (map snd ?data @ [PInt 2])) sample_db = update_users strict ?data 2 sample_db"
    by (rule mysql_update_users) (simp_all add: users_columns_def)
  have u: "\<exists>d' rs. update_users strict ?data 2 sample_db = Inr (d', rs)"
    by (simp add: update_users_def sample_db_def assign_column_def strict_def
          users_constraints_def)
  have c: "cursor_execute (mysql strict unsupported) no_faults
             (''UPDATE users SET '' @ set_clause_of ?data @ '' WHERE id = %s'')
             (Some (map snd ?data @ [PInt 2]))
             (logging INFO ''Updating user: {}, {}'' [AInt 2, AData ?data] sample_world) =
           update_users strict ?data 2 sample_db"
    unfolding cursor_execute_def using m
    by (simp add: no_faults_def sample_world_def truthy_def)
  from u obtain d' rs where "update_users strict ?data 2 sample_db = Inr (d', rs)" by blast
  with c show ?thesis
    unfolding update_user_def Let_def execute_query_result
    by (simp add: no_faults_def sample_world_def)
qed

theorem update_user_changes_supplied_columns_witness:
  "fst (update_user (mysql strict unsupported) no_faults 2
          [(''name'', PStr ''Benjamin''), (''password'', PStr ''new-secret'')] sample_world) =
     Inr True
   \<and> (\<exists>d t d1 t1.
         server sample_world = Some d \<and> users d = Some t \<and>
         server (snd (update_user (mysql strict unsupported) no_faults 2
            [(''name'', PStr ''Benjamin''), (''password'', PStr ''new-secret'')] sample_world)) =
           Some d1 \<and>
         users d1 = Some t1 \<and>
         posts d1 = posts d \<and> products d1 = products d \<and> next_id t1 = next_id t \<and>
         list_all2
           (\<lambda>r r1. (u_id r \<noteq> 2 \<longrightarrow> r1 = r) \<and>
                    (u_id r = 2 \<longrightarrow>
                       (\<forall>c. c \<notin> fst ` set [(''name'', PStr ''Benjamin''),
                                             (''password'', PStr ''new-secret'')] \<longrightarrow>
                            cell c r1 = cell c r) \<and>
                       (\<forall>c v. (c, v) \<in> set [(''name'', PStr ''Benjamin''),
                                              (''password'', PStr ''new-secret'')] \<longrightarrow>
                            cell c r1 = stored strict c v)))
           (rows t) (rows t1))"
proof -
  let ?data = "[(''name'', PStr ''Benjamin''), (''password'', PStr ''new-secret'')]"
  let ?w1 = "snd (update_user (mysql strict unsupported) no_faults 2 ?data sample_world)"
  have h: "?data \<noteq> [] \<and> distinct (map fst ?data) \<and>
      list_all (\<lambda>c. c \<in> set users_columns) (map fst ?data) \<and>
      update_user (mysql strict unsupported) no_faults 2 ?data sample_world = (Inr True, ?w1)"
    using sample_update_user by (simp add: users_columns_def prod_eq_iff)
  from update_user_changes_supplied_columns
      [of "mysql strict unsupported" no_faults 2 ?data sample_world strict unsupported ?w1] h
    sample_update_user
  show ?thesis by blast
qed

lemma copy_statement:
  "update_users_stmt cv ''UPDATE users SET name = email, password = %s WHERE id = %s''
     (Some [v, PInt uid]) d =
   Some (update_users_mixed cv [(''name'', Column ''email''), (''password'', Bound)] [v] uid d)"
proof -
  have pre: "strip_prefix ''UPDATE users SET ''
      ''UPDATE users SET name = email, password = %s WHERE id = %s'' =
      Some ''name = email, password = %s WHERE id = %s''"
    using strip_prefix_append [of "''UPDATE users SET ''" "''name = email, password = %s WHERE id = %s''"]
    by simp
  have suf: "strip_suffix '' WHERE id = %s'' ''name = email, password = %s WHERE id = %s'' =
      Some ''name = email, password = %s''"
    using strip_suffix_append [of "'' WHERE id = %s''" "''name = email, password = %s''"]
    by simp
  have sp: "split_comma [] ''name = email, password = %s'' = [''name = email'', ''password = %s'']"
    using split_comma_item [of "''name = email''" "[]" "''password = %s''"]
      split_comma_plain [of "''password = %s''" "[]"]
    by simp
  have p1: "strip_suffix '' = %s'' ''name = email'' = None"
    by (simp add: strip_suffix_def)
  have p2: "strip_suffix '' = %s'' ''password = %s'' = Some ''password''"
    using strip_suffix_append [of "'' = %s''" "''password''"] by simp
  have a1: "parse_assignment ''name = email'' = Some (''name'', Column ''email'')"
    by (simp add: parse_assignment_def p1 varchar_columns_def)
  have a2: "parse_assignment ''password = %s'' = Some (''password'', Bound)"
    by (simp add: parse_assignment_def p2)
  have m: "mixed_statement cv [''name = email'', ''password = %s''] (Some [v, PInt uid]) d =
      Some (update_users_mixed cv [(''name'', Column ''email''), (''password'', Bound)] [v] uid d)"
    by (simp add: mixed_statement_def a1 a2 users_columns_def)
  show ?thesis
    unfolding update_users_stmt_def
    by (simp add: pre suf sp p1 m del: split_comma.simps strip_prefix.simps)
qed

lemma mysql_copy_statement:
  "mysql cv other ''UPDATE users SET name = email, password = %s WHERE id = %s''
     (Some [v, PInt uid]) d =
   update_users_mixed cv [(''name'', Column ''email''), (''password'', Bound)] [v] uid d"
  unfolding mysql_def by (simp add: copy_statement)

lemma sample_copy:
  "update_users_mixed strict [(''name'', Column ''email''), (''password'', Bound)] [PStr ''x''] 2
     sample_db =
   Inr (sample_db\<lparr>users := Some \<lparr>rows =
          [\<lparr>u_id = 1, u_name = ''Ann'', u_email = ''ann@example.com'', u_password = ''secret-1''\<rparr>,
           \<lparr>u_id = 2, u_name = ''ben@example.com'', u_email = ''ben@example.com'', u_password = ''x''\<rparr>],
          next_id = 3\<rparr>\<rparr>, [])"
  by (simp add: update_users_mixed_def sample_db_def get_text_def set_text_def assign_column_def
        strict_def users_constraints_def)

text \<open>
  C6 as stated fails for a map whose key is not the name of a column.  The key
  \<^verbatim>\<open>name = email, password\<close> is inserted into the statement as it is and makes two
  assignments of it: the update succeeds, and the row's column \<^verbatim>\<open>name\<close>, which is not a
  key of the map, now holds the row's email.
\<close>

theorem update_user_raw_key:
  "fst (update_user (mysql strict unsupported) no_faults 2
          [(''name = email, password'', PStr ''x'')] sample_world) = Inr True
   \<and> map_option users (server sample_world) =
     Some (Some \<lparr>rows =
          [\<lparr>u_id = 1, u_name = ''Ann'', u_email = ''ann@example.com'', u_password = ''secret-1''\<rparr>,
           \<lparr>u_id = 2, u_name = ''Ben'', u_email = ''ben@example.com'', u_password = ''secret-2''\<rparr>],
          next_id = 3\<rparr>)
   \<and> map_option users (server (snd (update_user (mysql strict unsupported) no_faults 2
          [(''name = email, password'', PStr ''x'')] sample_world))) =
     Some (Some \<lparr>rows =
          [\<lparr>u_id = 1, u_name = ''Ann'', u_email = ''ann@example.com'', u_password = ''secret-1''\<rparr>,
           \<lparr>u_id = 2, u_name = ''ben@example.com'', u_email = ''ben@example.com'', u_password = ''x''\<rparr>],
          next_id = 3\<rparr>)
   \<and> ''name'' \<notin> fst ` set [(''name = email, password'', PStr ''x'')]"
proof -
  let ?data = "[(''name = email, password'', PStr ''x'')]"
  have u: "update_user (mysql strict unsupported) no_faults 2 ?data sample_world =
      execute_query (mysql strict unsupported) no_faults
        ''UPDATE users SET name = email, password = %s WHERE id = %s'' (Some [PStr ''x'', PInt 2])
        (logging INFO ''Updating user: {}, {}'' [AInt 2, AData ?data] sample_world)"
    by (simp add: update_user_def set_clause_of_def)
  have c: "cursor_execute (mysql strict unsupported) no_faults
        ''UPDATE users SET name = email, password = %s WHERE id = %s'' (Some [PStr ''x'', PInt 2])
        (logging INFO ''Updating user: {}, {}'' [AInt 2, AData ?data] sample_world) =
      Inr (sample_db\<lparr>users := Some \<lparr>rows =
          [\<lparr>u_id = 1, u_name = ''Ann'', u_email = ''ann@example.com'', u_password = ''secret-1''\<rparr>,
           \<lparr>u_id = 2, u_name = ''ben@example.com'', u_email = ''ben@example.com'', u_password = ''x''\<rparr>],
          next_id = 3\<rparr>\<rparr>, [])"
    unfolding cursor_execute_def
    by (simp add: mysql_copy_statement sample_copy no_faults_def sample_world_def truthy_def)
  have 1: "fst (update_user (mysql strict unsupported) no_faults 2 ?data sample_world) = Inr True"
    unfolding u execute_query_result using c by (simp add: no_faults_def sample_world_def)
  have 2: "map_option users (server sample_world) =
     Some (Some \<lparr>rows =
          [\<lparr>u_id = 1, u_name = ''Ann'', u_email = ''ann@example.com'', u_password = ''secret-1''\<rparr>,
           \<lparr>u_id = 2, u_name = ''Ben'', u_email = ''ben@example.com'', u_password = ''secret-2''\<rparr>],
          next_id = 3\<rparr>)"
    by (simp add: sample_world_def sample_db_def)
  have 3: "map_option users (server (snd (update_user (mysql strict unsupported) no_faults 2
          ?data sample_world))) =
     Some (Some \<lparr>rows =
          [\<lparr>u_id = 1, u_name = ''Ann'', u_email = ''ann@example.com'', u_password = ''secret-1''\<rparr>,
           \<lparr>u_id = 2, u_name = ''ben@example.com'', u_email = ''ben@example.com'', u_password = ''x''\<rparr>],
          next_id = 3\<rparr>)"
    unfolding u execute_query_server execute_query_result using c
    by (simp add: no_faults_def sample_world_def)
  have 4: "''name'' \<notin> fst ` set ?data" by simp
  from 1 2 3 4 show ?thesis by (intro conjI)
qed

section \<open>Seeding twice\<close>

text \<open>Renaming the rows of one email keeps the emails, and is the identity on rows that already carry the name.\<close>

lemma rename_email:
  "map u_email (map (\<lambda>r. if u_email r = e then r\<lparr>u_name := n\<rparr> else r) rs) = map u_email rs"
  by (induction rs) simp_all

lemma rename_ex:
  "list_ex (\<lambda>r. u_email r = e') (map (\<lambda>r. if u_email r = e then r\<lparr>u_name := n\<rparr> else r) rs) =
     list_ex (\<lambda>r. u_email r = e') rs"
  by (induction rs) simp_all

lemma rename_all_same:
  "list_all (\<lambda>r. u_email r = e \<longrightarrow> u_name r = n)
     (map (\<lambda>r. if u_email r = e then r\<lparr>u_name := n\<rparr> else r) rs)"
  by (induction rs) simp_all

lemma rename_all_other:
  "e' \<noteq> e \<Longrightarrow>
     list_all (\<lambda>r. u_email r = e' \<longrightarrow> u_name r = n')
       (map (\<lambda>r. if u_email r = e then r\<lparr>u_name := n\<rparr> else r) rs) =
     list_all (\<lambda>r. u_email r = e' \<longrightarrow> u_name r = n') rs"
  by (induction rs) auto

lemma rename_id:
  "list_all (\<lambda>r. u_email r = e \<longrightarrow> u_name r = n) rs \<Longrightarrow>
     map (\<lambda>r. if u_email r = e then r\<lparr>u_name := n\<rparr> else r) rs = rs"
  by (induction rs) auto

lemma absent_all:
  "\<not> list_ex (\<lambda>r. u_email r = e) rs \<Longrightarrow> list_all (\<lambda>r. u_email r = e \<longrightarrow> u_name r = n) rs"
  by (induction rs) auto

lemma present_upsert: "present seed (upsert_user pw seed t)"
  by (simp add: present_def upsert_user_def rename_ex rename_all_same absent_all)

lemma present_upsert_other:
  "snd seed' \<noteq> snd seed \<Longrightarrow> present seed t \<Longrightarrow> present seed (upsert_user pw seed' t)"
  by (simp add: present_def upsert_user_def rename_ex rename_all_other)

lemma upsert_present: "present seed t \<Longrightarrow> upsert_user pw seed t = t"
  by (simp add: present_def upsert_user_def rename_id)

lemma present_upsert_users_keep:
  "present s t \<Longrightarrow> snd s \<notin> snd ` set seeds \<Longrightarrow> present s (upsert_users rand k seeds t)"
proof (induction seeds arbitrary: k t)
  case Nil
  then show ?case by simp
next
  case (Cons a seeds)
  from Cons.prems(2) have "snd a \<noteq> snd s" "snd s \<notin> snd ` set seeds" by auto
  with Cons.prems(1) Cons.IH show ?case by (simp add: present_upsert_other)
qed

lemma present_upsert_users:
  "distinct (map snd seeds) \<Longrightarrow> s \<in> set seeds \<Longrightarrow> present s (upsert_users rand k seeds t)"
proof (induction seeds arbitrary: k t)
  case Nil
  then show ?case by simp
next
  case (Cons a seeds)
  show ?case
  proof (cases "s = a")
    case True
    from Cons.prems(1) have "snd a \<notin> snd ` set seeds" by auto
    with True show ?thesis
      by (simp add: present_upsert_users_keep [OF present_upsert])
  next
    case False
    with Cons show ?thesis by simp
  qed
qed

lemma upsert_users_present:
  "\<forall>s\<in>set seeds. present s t \<Longrightarrow> upsert_users rand k seeds t = t"
  by (induction seeds arbitrary: k) (simp_all add: upsert_present)

lemma upsert_users_twice:
  "distinct (map snd seeds) \<Longrightarrow>
     upsert_users rand' k' seeds (upsert_users rand k seeds t) = upsert_users rand k seeds t"
  by (rule upsert_users_present) (simp add: present_upsert_users)


lemma upsert_user_distinct:
  "distinct (map u_email (rows t)) \<Longrightarrow> distinct (map u_email (rows (upsert_user pw seed t)))"
proof (cases "list_ex (\<lambda>r. u_email r = snd seed) (rows t)")
  case True
  assume d: "distinct (map u_email (rows t))"
  from True have "rows (upsert_user pw seed t) =
      map (\<lambda>r. if u_email r = snd seed then r\<lparr>u_name := fst seed\<rparr> else r) (rows t)"
    by (simp add: upsert_user_def)
  then have "map u_email (rows (upsert_user pw seed t)) = map u_email (rows t)"
    by (simp only: rename_email)
  with d show ?thesis by simp
next
  case False
  assume "distinct (map u_email (rows t))"
  moreover from False have "snd seed \<notin> u_email ` set (rows t)"
    by (auto simp: list_ex_iff)
  ultimately show ?thesis using False by (simp add: upsert_user_def)
qed

lemma upsert_users_distinct:
  "distinct (map u_email (rows t)) \<Longrightarrow> distinct (map u_email (rows (upsert_users rand k seeds t)))"
  by (induction seeds arbitrary: k t) (simp_all add: upsert_user_distinct)

lemma one_row_per_email:
  "distinct (map u_email rs) \<Longrightarrow> list_ex (\<lambda>r. u_email r = e) rs \<Longrightarrow>
     length (filter (\<lambda>r. u_email r = e) rs) = 1"
proof (induction rs)
  case Nil
  then show ?case by simp
next
  case (Cons r rs)
  show ?case
  proof (cases "u_email r = e")
    case True
    with Cons.prems(1) have "e \<notin> u_email ` set rs" by simp
    then have "filter (\<lambda>r. u_email r = e) rs = []"
      unfolding filter_empty_conv by blast
    with True show ?thesis by simp
  next
    case False
    with Cons show ?thesis by simp
  qed
qed


lemma insert_products_rows:
  "\<exists>new. rows (insert_products seeds t) = rows t @ new \<and> map product_fields new = seeds"
proof (induction seeds arbitrary: t)
  case Nil
  then show ?case by simp
next
  case (Cons a seeds)
  obtain n ds pr q where a: "a = (n, ds, pr, q)" by (cases a)
  let ?r = "\<lparr>g_id = next_id t, g_name = n, g_description = ds, g_price = pr, g_quantity = q\<rparr>"
  let ?t1 = "t\<lparr>rows := rows t @ [?r], next_id := next_id t + 1\<rparr>"
  from Cons [of ?t1] obtain new where
    new: "rows (insert_products seeds ?t1) = rows ?t1 @ new" "map product_fields new = seeds"
    by (elim exE conjE)
  have "rows (insert_products (a # seeds) t) = rows (insert_products seeds ?t1)"
    by (simp add: a)
  also have "\<dots> = rows ?t1 @ new" by (rule new(1))
  also have "\<dots> = rows t @ (?r # new)" by simp
  finally have 1: "rows (insert_products (a # seeds) t) = rows t @ (?r # new)" .
  have 2: "map product_fields (?r # new) = a # seeds"
    by (simp add: new(2) a product_fields_def)
  show ?case by (rule exI [of _ "?r # new"]) (rule conjI [OF 1 2])
qed

lemma insert_posts_rows:
  "\<exists>new. rows (insert_posts seeds t) = rows t @ new \<and> map post_fields new = seeds"
proof (induction seeds arbitrary: t)
  case Nil
  then show ?case by simp
next
  case (Cons a seeds)
  obtain ti c u where a: "a = (ti, c, u)" by (cases a)
  let ?r = "\<lparr>p_id = next_id t, p_title = ti, p_content = c, p_user_id = u\<rparr>"
  let ?t1 = "t\<lparr>rows := rows t @ [?r], next_id := next_id t + 1\<rparr>"
  from Cons [of ?t1] obtain new where
    new: "rows (insert_posts seeds ?t1) = rows ?t1 @ new" "map post_fields new = seeds"
    by (elim exE conjE)
  have "rows (insert_posts (a # seeds) t) = rows (insert_posts seeds ?t1)"
    by (simp add: a)
  also have "\<dots> = rows ?t1 @ new" by (rule new(1))
  also have "\<dots> = rows t @ (?r # new)" by simp
  finally have 1: "rows (insert_posts (a # seeds) t) = rows t @ (?r # new)" .
  have 2: "map post_fields (?r # new) = a # seeds"
    by (simp add: new(2) a post_fields_def)
  show ?case by (rule exI [of _ "?r # new"]) (rule conjI [OF 1 2])
qed

lemma init_success:
  assumes "initialize_database e w = (Inr (Some True), w')"
  shows "\<exists>c. exec_stmts (i_execute_raises e) 0 (statements (i_rand e)) (server w, server w) =
           (None, c, server w')"
  using assms
  by (auto simp: initialize_database_def Let_def finally_close_def
      split: option.splits if_splits prod.splits)

lemma exec_step:
  assumes "exec_stmts fault k ((ac, f) # fs) (c, v) = (None, c', v')"
  obtains v1 where "f v = Inr v1"
    and "exec_stmts fault (Suc k) fs (if ac then v1 else c, v1) = (None, c', v')"
  using assms by (auto split: option.splits sum.splits)

lemma in_database_Inr:
  assumes "in_database f v = Inr v'"
  obtains d d' where "v = Some d" "f d = Inr d'" "v' = Some d'"
  using assms by (auto simp: in_database_def split: option.splits sum.splits)

lemma run_ok:
  assumes "exec_stmts fault 0 (statements rand) (s, s) = (None, c, v)"
  shows "\<exists>d tu tg tp.
           v = Some d \<and>
           users d = Some (upsert_users rand 0 seed_users tu) \<and>
           products d = Some (insert_products seed_products tg) \<and>
           posts d = Some (insert_posts seed_posts tp) \<and>
           (unique_emails s \<longrightarrow> distinct (map u_email (rows tu))) \<and>
           (\<forall>d0 t. s = Some d0 \<and> users d0 = Some t \<longrightarrow> tu = t) \<and>
           (\<forall>d0 t. s = Some d0 \<and> products d0 = Some t \<longrightarrow> tg = t) \<and>
           (\<forall>d0 t. s = Some d0 \<and> posts d0 = Some t \<longrightarrow> tp = t) \<and>
           (s = None \<longrightarrow> rows tu = [] \<and> rows tg = [] \<and> rows tp = [])"
proof -
  from assms [unfolded statements_def] obtain v1 where
    s1: "create_database s = Inr v1" and
    r1: "exec_stmts fault (Suc 0)
           [(False, use_database),
            (True, in_database create_users_table),
            (True, in_database create_posts_table),
            (True, in_database create_products_table),
            (False, in_database (load_users_db_data rand)),
            (False, in_database load_products_db_data),
            (False, in_database load_posts_db_data)] (v1, v1) = (None, c, v)"
    by (rule exec_step) simp
  from r1 obtain v2 where
    s2: "use_database v1 = Inr v2" and
    r2: "exec_stmts fault (Suc (Suc 0))
           [(True, in_database create_users_table),
            (True, in_database create_posts_table),
            (True, in_database create_products_table),
            (False, in_database (load_users_db_data rand)),
            (False, in_database load_products_db_data),
            (False, in_database load_posts_db_data)] (v1, v2) = (None, c, v)"
    by (rule exec_step) simp
  from r2 obtain v3 where
    s3: "in_database create_users_table v2 = Inr v3" and
    r3: "exec_stmts fault (Suc (Suc (Suc 0)))
           [(True, in_database create_posts_table),
            (True, in_database create_products_table),
            (False, in_database (load_users_db_data rand)),
            (False, in_database load_products_db_data),
            (False, in_database load_posts_db_data)] (v3, v3) = (None, c, v)"
    by (rule exec_step) simp
  from r3 obtain v4 where
    s4: "in_database create_posts_table v3 = Inr v4" and
    r4: "exec_stmts fault (Suc (Suc (Suc (Suc 0))))
           [(True, in_database create_products_table),
            (False, in_database (load_users_db_data rand)),
            (False, in_database load_products_db_data),
            (False, in_database load_posts_db_data)] (v4, v4) = (None, c, v)"
    by (rule exec_step) simp
  from r4 obtain v5 where
    s5: "in_database create_products_table v4 = Inr v5" and
    r5: "exec_stmts fault (Suc (Suc (Suc (Suc (Suc 0)))))
           [(False, in_database (load_users_db_data rand)),
            (False, in_database load_products_db_data),
            (False, in_database load_posts_db_data)] (v5, v5) = (None, c, v)"
    by (rule exec_step) simp
  from r5 obtain v6 where
    s6: "in_database (load_users_db_data rand) v5 = Inr v6" and
    r6: "exec_stmts fault (Suc (Suc (Suc (Suc (Suc (Suc 0))))))
           [(False, in_database load_products_db_data),
            (False, in_database load_posts_db_data)] (v5, v6) = (None, c, v)"
    by (rule exec_step) simp
  from r6 obtain v7 where
    s7: "in_database load_products_db_data v6 = Inr v7" and
    r7: "exec_stmts fault (Suc (Suc (Suc (Suc (Suc (Suc (Suc 0)))))))
           [(False, in_database load_posts_db_data)] (v5, v7) = (None, c, v)"
    by (rule exec_step) simp
  from r7 obtain v8 where
    s8: "in_database load_posts_db_data v7 = Inr v8" and
    r8: "exec_stmts fault (Suc (Suc (Suc (Suc (Suc (Suc (Suc (Suc 0))))))))
           [] (v5, v8) = (None, c, v)"
    by (rule exec_step) simp
  from r8 have v: "v = v8" by simp
  from s1 obtain d1 where d1: "v1 = Some d1"
    "d1 = (case s of None \<Rightarrow> \<lparr>users = None, posts = None, products = None\<rparr> | Some d0 \<Rightarrow> d0)"
    by (auto simp: create_database_def split: option.splits)
  from s2 d1(1) have v2: "v2 = Some d1" by (simp add: use_database_def)
  from s3 v2 obtain d3 where d3: "v3 = Some d3" "create_users_table d1 = Inr d3"
    by (auto elim: in_database_Inr)
  from s4 d3(1) obtain d4 where d4: "v4 = Some d4" "create_posts_table d3 = Inr d4"
    by (auto elim: in_database_Inr)
  from s5 d4(1) obtain d5 where d5: "v5 = Some d5" "create_products_table d4 = Inr d5"
    by (auto elim: in_database_Inr)
  from s6 d5(1) obtain d6 where d6: "v6 = Some d6" "load_users_db_data rand d5 = Inr d6"
    by (auto elim: in_database_Inr)
  from s7 d6(1) obtain d7 where d7: "v7 = Some d7" "load_products_db_data d6 = Inr d7"
    by (auto elim: in_database_Inr)
  from s8 d7(1) obtain d8 where d8: "v8 = Some d8" "load_posts_db_data d7 = Inr d8"
    by (auto elim: in_database_Inr)
  define tu where "tu = (case users d1 of None \<Rightarrow> \<lparr>rows = [], next_id = 1\<rparr> | Some t \<Rightarrow> t)"
  define tp where "tp = (case posts d1 of None \<Rightarrow> \<lparr>rows = [], next_id = 1\<rparr> | Some t \<Rightarrow> t)"
  define tg where "tg = (case products d1 of None \<Rightarrow> \<lparr>rows = [], next_id = 1\<rparr> | Some t \<Rightarrow> t)"
  from d3(2) have t3: "users d3 = Some tu" "posts d3 = posts d1" "products d3 = products d1"
    by (auto simp: create_users_table_def tu_def split: option.splits)
  from d4(2) t3 have t4: "users d4 = Some tu" "posts d4 = Some tp" "products d4 = products d1"
    by (auto simp: create_posts_table_def tp_def split: option.splits)
  from d5(2) t4 have t5: "users d5 = Some tu" "posts d5 = Some tp" "products d5 = Some tg"
    by (auto simp: create_products_table_def tg_def split: option.splits)
  from d6(2) t5 have t6: "users d6 = Some (upsert_users rand 0 seed_users tu)"
      "posts d6 = Some tp" "products d6 = Some tg"
    by (auto simp: load_users_db_data_def split: option.splits)
  from d7(2) t6 have t7: "users d7 = Some (upsert_users rand 0 seed_users tu)"
      "posts d7 = Some tp" "products d7 = Some (insert_products seed_products tg)"
    by (auto simp: load_products_db_data_def split: option.splits)
  from d8(2) t7 have t8: "users d8 = Some (upsert_users rand 0 seed_users tu)"
      "posts d8 = Some (insert_posts seed_posts tp)"
      "products d8 = Some (insert_products seed_products tg)"
    by (auto simp: load_posts_db_data_def split: option.splits if_splits)
  have u: "unique_emails s \<longrightarrow> distinct (map u_email (rows tu))"
    by (auto simp: unique_emails_def tu_def d1(2) split: option.splits)
  have e: "\<forall>d0 t. s = Some d0 \<and> users d0 = Some t \<longrightarrow> tu = t"
      "\<forall>d0 t. s = Some d0 \<and> products d0 = Some t \<longrightarrow> tg = t"
      "\<forall>d0 t. s = Some d0 \<and> posts d0 = Some t \<longrightarrow> tp = t"
      "s = None \<longrightarrow> rows tu = [] \<and> rows tg = [] \<and> rows tp = []"
    by (auto simp: tu_def tg_def tp_def d1(2))
  from v d8(1) t8 u e show ?thesis by blast
qed

lemma seed_emails_distinct: "distinct (map snd seed_users)"
  by (simp add: seed_users_def)

text \<open>
  C3.  Take any stored data in which \<^verbatim>\<open>email\<close> is unique, and two calls of
  \<^verbatim>\<open>initialize_database\<close> in a row that both return \<open>True\<close>.  The second call leaves the
  users table exactly as the first left it, and in it every seeded user is present in
  exactly one row (the INSERT into users updates the row found by its email).  The
  products table and the posts table after the second call are those after the first
  call followed by one more copy of the seeded rows: the first call appended the seeded
  rows once, the second appended them again (plain INSERT, no conflict key).
\<close>

theorem initialize_twice:
  assumes "unique_emails (server w0)"
      and "initialize_database e1 w0 = (Inr (Some True), w1)"
      and "initialize_database e2 w1 = (Inr (Some True), w2)"
  shows "\<exists>d1 d2 tu tg1 tg2 tp1 tp2.
           server w1 = Some d1 \<and> server w2 = Some d2 \<and>
           users d1 = Some tu \<and> users d2 = Some tu \<and>
           list_all (\<lambda>seed. present seed tu \<and>
                       length (filter (\<lambda>r. u_email r = snd seed) (rows tu)) = 1) seed_users \<and>
           products d1 = Some tg1 \<and> products d2 = Some tg2 \<and>
           (\<exists>pre a b. rows tg1 = pre @ a \<and> rows tg2 = pre @ a @ b \<and>
              map product_fields a = seed_products \<and> map product_fields b = seed_products) \<and>
           posts d1 = Some tp1 \<and> posts d2 = Some tp2 \<and>
           (\<exists>pre a b. rows tp1 = pre @ a \<and> rows tp2 = pre @ a @ b \<and>
              map post_fields a = seed_posts \<and> map post_fields b = seed_posts)"
proof -
  from init_success [OF assms(2)] obtain c1 where
    "exec_stmts (i_execute_raises e1) 0 (statements (i_rand e1)) (server w0, server w0) =
       (None, c1, server w1)"
    by blast
  from run_ok [OF this] assms(1) obtain d1 tu0 tg0 tp0 where
    d1: "server w1 = Some d1"
      "users d1 = Some (upsert_users (i_rand e1) 0 seed_users tu0)"
      "products d1 = Some (insert_products seed_products tg0)"
      "posts d1 = Some (insert_posts seed_posts tp0)"
      "distinct (map u_email (rows tu0))"
    by blast
  define tu where "tu = upsert_users (i_rand e1) 0 seed_users tu0"
  define tg1 where "tg1 = insert_products seed_products tg0"
  define tp1 where "tp1 = insert_posts seed_posts tp0"
  from init_success [OF assms(3)] obtain c2 where
    "exec_stmts (i_execute_raises e2) 0 (statements (i_rand e2)) (server w1, server w1) =
       (None, c2, server w2)"
    by blast
  from run_ok [OF this] obtain d2 tu' tg' tp' where
    d2: "server w2 = Some d2"
      "users d2 = Some (upsert_users (i_rand e2) 0 seed_users tu')"
      "products d2 = Some (insert_products seed_products tg')"
      "posts d2 = Some (insert_posts seed_posts tp')"
    and same: "\<forall>d0 t. server w1 = Some d0 \<and> users d0 = Some t \<longrightarrow> tu' = t"
      "\<forall>d0 t. server w1 = Some d0 \<and> products d0 = Some t \<longrightarrow> tg' = t"
      "\<forall>d0 t. server w1 = Some d0 \<and> posts d0 = Some t \<longrightarrow> tp' = t"
    by blast
  from same d1 have eq: "tu' = tu" "tg' = tg1" "tp' = tp1"
    by (simp_all add: tu_def tg1_def tp1_def)
  have u2: "users d2 = Some tu"
    unfolding d2(2) eq(1) tu_def by (simp add: upsert_users_twice [OF seed_emails_distinct])
  have pres: "\<forall>seed\<in>set seed_users. present seed tu"
    unfolding tu_def by (simp add: present_upsert_users [OF seed_emails_distinct])
  have dist: "distinct (map u_email (rows tu))"
    unfolding tu_def by (rule upsert_users_distinct [OF d1(5)])
  have one: "list_all (\<lambda>seed. present seed tu \<and>
      length (filter (\<lambda>r. u_email r = snd seed) (rows tu)) = 1) seed_users"
    unfolding list_all_iff
  proof
    fix seed
    assume "seed \<in> set seed_users"
    with pres have p: "present seed tu" by blast
    then have "list_ex (\<lambda>r. u_email r = snd seed) (rows tu)" by (simp add: present_def)
    from one_row_per_email [OF dist this] p
    show "present seed tu \<and> length (filter (\<lambda>r. u_email r = snd seed) (rows tu)) = 1"
      by simp
  qed
  obtain ga where ga: "rows tg1 = rows tg0 @ ga" "map product_fields ga = seed_products"
    unfolding tg1_def using insert_products_rows [of seed_products tg0] by (elim exE conjE)
  obtain gb where gb: "rows (insert_products seed_products tg1) = rows tg1 @ gb"
      "map product_fields gb = seed_products"
    using insert_products_rows [of seed_products tg1] by (elim exE conjE)
  obtain pa where pa: "rows tp1 = rows tp0 @ pa" "map post_fields pa = seed_posts"
    unfolding tp1_def using insert_posts_rows [of seed_posts tp0] by (elim exE conjE)
  obtain pb where pb: "rows (insert_posts seed_posts tp1) = rows tp1 @ pb"
      "map post_fields pb = seed_posts"
    using insert_posts_rows [of seed_posts tp1] by (elim exE conjE)
  have g: "\<exists>pre a b. rows tg1 = pre @ a \<and> rows (insert_products seed_products tg1) = pre @ a @ b \<and>
      map product_fields a = seed_products \<and> map product_fields b = seed_products"
    using ga gb by (intro exI [of _ "rows tg0"] exI [of _ ga] exI [of _ gb]) simp
  have p: "\<exists>pre a b. rows tp1 = pre @ a \<and> rows (insert_posts seed_posts tp1) = pre @ a @ b \<and>
      map post_fields a = seed_posts \<and> map post_fields b = seed_posts"
    using pa pb by (intro exI [of _ "rows tp0"] exI [of _ pa] exI [of _ pb]) simp
  show ?thesis
    apply (rule exI [of _ d1], rule exI [of _ d2], rule exI [of _ tu])
    apply (rule exI [of _ tg1], rule exI [of _ "insert_products seed_products tg1"])
    apply (rule exI [of _ tp1], rule exI [of _ "insert_posts seed_posts tp1"])
    using d1 d2 u2 one g p eq
    by (simp add: tu_def tg1_def tp1_def)
qed

lemma fresh_first:
  "fst (initialize_database init_no_faults fresh_world) = Inr (Some True)"
  by code_simp

lemma fresh_second:
  "fst (initialize_database init_no_faults
          (snd (initialize_database init_no_faults fresh_world))) = Inr (Some True)"
  by code_simp

lemma fresh_counts:
  "map_option
     (\<lambda>d. (map_option (\<lambda>t. length (rows t)) (users d),
           map_option (\<lambda>t. length (rows t)) (products d),
           map_option (\<lambda>t. length (rows t)) (posts d)))
     (server (snd (initialize_database init_no_faults
                (snd (initialize_database init_no_faults fresh_world))))) =
   Some (Some 5, Some 10, Some 10)"
  by code_simp

theorem initialize_twice_witness:
  "unique_emails (server fresh_world)
   \<and> fst (initialize_database init_no_faults fresh_world) = Inr (Some True)
   \<and> fst (initialize_database init_no_faults
            (snd (initialize_database init_no_faults fresh_world))) = Inr (Some True)
   \<and> (\<exists>d1 d2 tu tg1 tg2 tp1 tp2.
         server (snd (initialize_database init_no_faults fresh_world)) = Some d1 \<and>
         server (snd (initialize_database init_no_faults
                   (snd (initialize_database init_no_faults fresh_world)))) = Some d2 \<and>
         users d1 = Some tu \<and> users d2 = Some tu \<and>
         list_all (\<lambda>seed. present seed tu \<and>
                     length (filter (\<lambda>r. u_email r = snd seed) (rows tu)) = 1) seed_users \<and>
         products d1 = Some tg1 \<and> products d2 = Some tg2 \<and>
         (\<exists>pre a b. rows tg1 = pre @ a \<and> rows tg2 = pre @ a @ b \<and>
            map product_fields a = seed_products \<and> map product_fields b = seed_products) \<and>
         posts d1 = Some tp1 \<and> posts d2 = Some tp2 \<and>
         (\<exists>pre a b. rows tp1 = pre @ a \<and> rows tp2 = pre @ a @ b \<and>
            map post_fields a = seed_posts \<and> map post_fields b = seed_posts))
   \<and> map_option
       (\<lambda>d. (map_option (\<lambda>t. length (rows t)) (users d),
             map_option (\<lambda>t. length (rows t)) (products d),
             map_option (\<lambda>t. length (rows t)) (posts d)))
       (server (snd (initialize_database init_no_faults
                  (snd (initialize_database init_no_faults fresh_world))))) =
     Some (Some 5, Some 10, Some 10)"
proof -
  let ?w1 = "snd (initialize_database init_no_faults fresh_world)"
  let ?w2 = "snd (initialize_database init_no_faults ?w1)"
  have a1: "unique_emails (server fresh_world)"
    by (simp add: unique_emails_def fresh_world_def)
  have a2: "initialize_database init_no_faults fresh_world = (Inr (Some True), ?w1)"
    using fresh_first by (simp add: prod_eq_iff)
  have a3: "initialize_database init_no_faults ?w1 = (Inr (Some True), ?w2)"
    using fresh_second by (simp add: prod_eq_iff)
  from initialize_twice [OF a1 a2 a3] a1 fresh_first fresh_second fresh_counts
  show ?thesis by (intro conjI)
qed

end
